theory Spec2Isabelle
  imports Main "HOL-Library.Word"
begin

section \<open>Quote comparison chatbot: the dialogue controller and its callers\<close>

text \<open>
  The development embeds \<open>statement_4_quote_comparison/main.py\<close> (the classifier
  wrapper \<open>understand_question\<close>, the retriever \<open>get_plans\<close>, the generator wrapper
  \<open>generate_answer\<close>, the controller \<open>chat\<close> and the console loop) and the serving
  boundary of \<open>statement_4_quote_comparison/app.py\<close> (\<open>home\<close>, \<open>chat_endpoint\<close>,
  \<open>reset_conversation\<close>). The function \<open>chat\<close> and its three helpers are the same
  text in both files.
\<close>

subsection \<open>Python values, exceptions and the external calls\<close>

text \<open>
  What \<open>json.loads\<close> can return. A dict is an association list in insertion order,
  its keys distinct; a float is carried by its IEEE-754 bit pattern, since the code never
  computes with one. Strings are byte strings: a code point above 255 is not represented.
\<close>

datatype pyval =
    PNone
  | PBool bool
  | PInt int
  | PFloat "64 word"
  | PStr string
  | PList "pyval list"
  | PDict "(string \<times> pyval) list"

text \<open>
  The exceptions the code can meet. \<open>CollaboratorFailure\<close> stands for whatever the two
  language-model clients and the vector store raise.
\<close>

datatype error =
    KeyError string
  | TypeError
  | AttributeError
  | EOFError
  | CollaboratorFailure string

record document =
  page_content :: string
  metadata :: "(string \<times> pyval) list"

datatype message = SystemMessage string | HumanMessage string | AIMessage string

text \<open>
  Every call that leaves the process is logged: \<open>llm1.invoke(messages)\<close>,
  \<open>vector_db.similarity_search(query, k, filter)\<close> and \<open>llm2.invoke(messages)\<close>.
\<close>

datatype call =
    Llm1 "message list"
  | Search string nat "(string \<times> pyval) list"
  | Llm2 "message list"

text \<open>
  The surroundings of the code. The three external services answer as they like: their
  answer may depend on every call made so far (the log), and each may raise. The two
  system prompts are the constant texts of \<open>system_msg\<close> and \<open>sys_content\<close>;
  \<open>json_loads\<close> is \<open>json.loads\<close> with \<open>None\<close> for any exception it raises, and
  \<open>py_repr\<close> is Python's \<open>repr\<close>.
\<close>

record env =
  classifier_prompt :: string
  advisor_prompt :: string
  llm1_invoke :: "call list \<Rightarrow> message list \<Rightarrow> error + string"
  llm2_invoke :: "call list \<Rightarrow> message list \<Rightarrow> error + string"
  similarity_search ::
    "call list \<Rightarrow> string \<Rightarrow> nat \<Rightarrow> (string \<times> pyval) list \<Rightarrow> error + document list"
  json_loads :: "string \<Rightarrow> pyval option"
  py_repr :: "pyval \<Rightarrow> string"

text \<open>One turn of the history: the dict \<open>{"user", "bot", "plans"}\<close>, where the key
  \<open>"plans"\<close> may be absent.\<close>

record item =
  user :: string
  bot :: string
  plans :: "document list option"

subsection \<open>Built-in operations of Python the code relies on\<close>

definition nl :: string where
  "nl = [CHR 0x0A]"

definition dq :: string where
  "dq = [CHR 0x22]"

definition sq :: string where
  "sq = [CHR 0x27]"

text \<open>\<open>str(v)\<close>, as an f-string formats a value: a string is inserted as it is.\<close>

definition py_str :: "env \<Rightarrow> pyval \<Rightarrow> string" where
  "py_str env v = (case v of PStr s \<Rightarrow> s | _ \<Rightarrow> py_repr env v)"

text \<open>\<open>v[key]\<close> with a string key: only a dict can answer, and a missing key raises.\<close>

definition py_getitem :: "pyval \<Rightarrow> string \<Rightarrow> error + pyval" where
  "py_getitem v key =
     (case v of
        PDict kvs \<Rightarrow> (case map_of kvs key of None \<Rightarrow> Inl (KeyError key) | Some x \<Rightarrow> Inr x)
      | _ \<Rightarrow> Inl TypeError)"

text \<open>\<open>for x in v\<close>: the elements of a list, the characters of a string, the keys of a
  dict; anything else is not iterable.\<close>

definition py_iter :: "pyval \<Rightarrow> error + pyval list" where
  "py_iter v =
     (case v of
        PList xs \<Rightarrow> Inr xs
      | PStr s \<Rightarrow> Inr (map (\<lambda>c. PStr [c]) s)
      | PDict kvs \<Rightarrow> Inr (map (\<lambda>kv. PStr (fst kv)) kvs)
      | _ \<Rightarrow> Inl TypeError)"

text \<open>\<open>not v\<close>.\<close>

definition py_not :: "pyval \<Rightarrow> bool" where
  "py_not v =
     (case v of
        PNone \<Rightarrow> True
      | PBool b \<Rightarrow> \<not> b
      | PInt i \<Rightarrow> i = 0
      | PFloat w \<Rightarrow> w = 0 \<or> w = 0x8000000000000000
      | PStr s \<Rightarrow> s = []
      | PList xs \<Rightarrow> xs = []
      | PDict kvs \<Rightarrow> kvs = [])"

fun is_infix :: "string \<Rightarrow> string \<Rightarrow> bool" where
  "is_infix p [] = (p = [])"
| "is_infix p (c # cs) = (take (length p) (c # cs) = p \<or> is_infix p cs)"

text \<open>\<open>key in v\<close> with a string key.\<close>

definition py_contains :: "pyval \<Rightarrow> string \<Rightarrow> error + bool" where
  "py_contains v key =
     (case v of
        PDict kvs \<Rightarrow> Inr (key \<in> set (map fst kvs))
      | PList xs \<Rightarrow> Inr (PStr key \<in> set xs)
      | PStr s \<Rightarrow> Inr (is_infix key s)
      | _ \<Rightarrow> Inl TypeError)"

definition is_space :: "char \<Rightarrow> bool" where
  "is_space c =
     (let n = (of_char c :: nat)
      in (9 \<le> n \<and> n \<le> 13) \<or> (28 \<le> n \<and> n \<le> 32) \<or> n = 133 \<or> n = 160)"

text \<open>\<open>s.strip()\<close>.\<close>

definition strip :: "string \<Rightarrow> string" where
  "strip s = rev (dropWhile is_space (rev (dropWhile is_space s)))"

definition lower_char :: "char \<Rightarrow> char" where
  "lower_char c =
     (let n = (of_char c :: nat)
      in if (65 \<le> n \<and> n \<le> 90) \<or> (192 \<le> n \<and> n \<le> 222 \<and> n \<noteq> 215)
         then char_of (n + 32) else c)"

text \<open>\<open>s.lower()\<close>.\<close>

definition lower :: "string \<Rightarrow> string" where
  "lower s = map lower_char s"

subsection \<open>The classifier wrapper\<close>

text \<open>
  \<open>understand_question\<close>: builds the two messages (\<open>classifier_request\<close>), calls the
  first model (outside the \<open>try\<close>), and decodes the answer; the bare \<open>except\<close> around
  \<open>json.loads\<close> gives the fixed INVALID dict.
\<close>

definition parse_fallback :: pyval where
  "parse_fallback =
     PDict [(''question_type'', PStr ''INVALID''),
            (''premium_amounts'', PNone),
            (''reason'', PStr ''Error parsing AI response'')]"

definition classifier_request :: "env \<Rightarrow> string \<Rightarrow> string list \<Rightarrow> message list" where
  "classifier_request env question prev_questions =
     (let prev_context =
            (if prev_questions \<noteq> []
             then foldl (\<lambda>acc q. acc @ ''- '' @ q @ nl) [] prev_questions
             else ''None'');
          system_msg = SystemMessage (classifier_prompt env);
          human_msg = HumanMessage
            (''Previous questions asked by user:'' @ prev_context
             @ '' Current question: '' @ dq @ question @ dq @ nl
             @ ''        Classify this question and extract premium amounts.'')
      in [system_msg, human_msg])"

definition understand_question ::
  "env \<Rightarrow> call list \<Rightarrow> string \<Rightarrow> string list \<Rightarrow> call list \<times> (error + pyval)" where
  "understand_question env t question prev_questions =
     (let request = classifier_request env question prev_questions
      in case llm1_invoke env t request of
           Inl e \<Rightarrow> (t @ [Llm1 request], Inl e)
         | Inr content \<Rightarrow>
             (t @ [Llm1 request],
              Inr (case json_loads env content of
                     Some v \<Rightarrow> v
                   | None \<Rightarrow> parse_fallback)))"

subsection \<open>The retriever\<close>

text \<open>
  \<open>get_plans\<close>: one search per premium, \<open>k = 1\<close>, filtered on that premium; the first
  result is kept when there is one. The loop carries the list \<open>plans\<close> built so far.
\<close>

fun get_plans_loop ::
  "env \<Rightarrow> call list \<Rightarrow> pyval list \<Rightarrow> document list \<Rightarrow> call list \<times> (error + document list)" where
  "get_plans_loop env t [] acc = (t, Inr acc)"
| "get_plans_loop env t (premium # rest) acc =
     (let query = ''insurance plan '' @ py_str env premium;
          flt = [(''premium'', premium)]
      in case similarity_search env t query 1 flt of
           Inl e \<Rightarrow> (t @ [Search query 1 flt], Inl e)
         | Inr results \<Rightarrow>
             get_plans_loop env (t @ [Search query 1 flt]) rest
               (case results of [] \<Rightarrow> acc | r # _ \<Rightarrow> acc @ [r]))"

definition get_plans ::
  "env \<Rightarrow> call list \<Rightarrow> pyval \<Rightarrow> call list \<times> (error + document list)" where
  "get_plans env t premiums =
     (case py_iter premiums of
        Inl e \<Rightarrow> (t, Inl e)
      | Inr keys \<Rightarrow> get_plans_loop env t keys [])"

subsection \<open>The generator wrapper\<close>

definition generator_request ::
  "env \<Rightarrow> string \<Rightarrow> document list \<Rightarrow> item list \<Rightarrow> message list" where
  "generator_request env question found history =
     (let plan_text =
            (if found \<noteq> []
             then foldl (\<lambda>acc plan. acc @ page_content plan @ nl @ nl) [] found
             else ''No plans available'');
          system_msg = SystemMessage (advisor_prompt env);
          replay = concat (map (\<lambda>it. [HumanMessage (user it), AIMessage (bot it)]) history);
          current_question = HumanMessage
            (''Here are the insurance plans to compare:'' @ plan_text @ nl
             @ ''    User'' @ sq @ ''s question: '' @ question @ nl
             @ ''    Please compare these plans and answer the user'' @ sq
             @ ''s question in simple, clear terms.'')
      in [system_msg] @ replay @ [current_question])"

definition generate_answer ::
  "env \<Rightarrow> call list \<Rightarrow> string \<Rightarrow> document list \<Rightarrow> item list \<Rightarrow> call list \<times> (error + string)" where
  "generate_answer env t question found history =
     (let messages = generator_request env question found history
      in (t @ [Llm2 messages], llm2_invoke env t messages))"

subsection \<open>The dialogue controller\<close>

text \<open>
  \<open>chat\<close> returns the triple \<open>(answer, history, prev_questions)\<close>, or \<open>None\<close> when no
  route is taken, or raises; the log of external calls is threaded through.
\<close>

text \<open>\<open>it.get("plans", [])\<close>.\<close>

definition cached_plans :: "item \<Rightarrow> document list" where
  "cached_plans it = (case plans it of None \<Rightarrow> [] | Some ps \<Rightarrow> ps)"

definition chat ::
  "env \<Rightarrow> call list \<Rightarrow> string \<Rightarrow> item list \<Rightarrow> string list
     \<Rightarrow> call list \<times> (error + (string \<times> item list \<times> string list) option)" where
  "chat env t question history prev_questions =
     (case understand_question env t question prev_questions of
        (t1, Inl e) \<Rightarrow> (t1, Inl e)
      | (t1, Inr understanding) \<Rightarrow>
     (case py_getitem understanding ''question_type'' of
        Inl e \<Rightarrow> (t1, Inl e)
      | Inr q_type \<Rightarrow>
     (case py_getitem understanding ''premium_amounts'' of
        Inl e \<Rightarrow> (t1, Inl e)
      | Inr premiums \<Rightarrow>
     if q_type = PStr ''INVALID'' then
       (case py_getitem understanding ''reason'' of
          Inl e \<Rightarrow> (t1, Inl e)
        | Inr reason \<Rightarrow>
            (t1, Inr (Some
               (''Please provide 2-3 premium amounts to compare.'' @ nl
                @ ''Example: '' @ sq @ ''compare 18000, 22500, 28000'' @ sq @ nl @ nl
                @ ''Reason: '' @ py_str env reason,
                history, prev_questions))))
     else if q_type = PStr ''NEW'' then
       (case get_plans env t1 premiums of
          (t2, Inl e) \<Rightarrow> (t2, Inl e)
        | (t2, Inr found) \<Rightarrow>
            if found = [] then
              (t2, Inr (Some
                 (''No plans found for premiums: '' @ py_str env premiums,
                  history, prev_questions)))
            else
              (case generate_answer env t2 question found history of
                 (t3, Inl e) \<Rightarrow> (t3, Inl e)
               | (t3, Inr answer) \<Rightarrow>
                   (t3, Inr (Some
                      (answer,
                       history @ [\<lparr>user = question, bot = answer, plans = Some found\<rparr>],
                       prev_questions @ [question])))))
     else if q_type = PStr ''FOLLOW_UP'' then
       (if history = [] then
          (t1, Inr (Some
             (''Please ask a comparison question first with 2-3 premiums.'',
              history, prev_questions)))
        else
          (let last_plans = cached_plans (last history)
           in case generate_answer env t1 question last_plans history of
                (t3, Inl e) \<Rightarrow> (t3, Inl e)
              | (t3, Inr answer) \<Rightarrow>
                  (t3, Inr (Some
                     (answer,
                      history @ [\<lparr>user = question, bot = answer, plans = Some last_plans\<rparr>],
                      prev_questions @ [question])))))
     else (t1, Inr None))))"

subsection \<open>The console loop of main.py\<close>

text \<open>
  The \<open>while True\<close> loop over the lines typed: \<open>exit\<close> or \<open>quit\<close> ends it, an empty
  line is skipped, anything else goes to \<open>chat\<close>, whose triple is unpacked (unpacking
  \<open>None\<close> raises). At the end of the input \<open>input()\<close> raises. The arguments are the
  log, the answers printed so far, the lines still to come, and the two lists of the
  state; the result is the log, the answers printed, and the state at the \<open>break\<close> or
  the exception that ended the loop.
\<close>

fun main_loop ::
  "env \<Rightarrow> call list \<Rightarrow> string list \<Rightarrow> string list \<Rightarrow> item list \<Rightarrow> string list
     \<Rightarrow> call list \<times> string list \<times> (error + item list \<times> string list)" where
  "main_loop env t out [] history prev_questions = (t, out, Inl EOFError)"
| "main_loop env t out (line # rest) history prev_questions =
     (let user_input = strip line
      in if lower user_input \<in> {''exit'', ''quit''} then (t, out, Inr (history, prev_questions))
         else if user_input = [] then main_loop env t out rest history prev_questions
         else
           (case chat env t user_input history prev_questions of
              (t', Inl e) \<Rightarrow> (t', out, Inl e)
            | (t', Inr None) \<Rightarrow> (t', out, Inl TypeError)
            | (t', Inr (Some (answer, history', prev_questions'))) \<Rightarrow>
                main_loop env t' (out @ [answer]) rest history' prev_questions'))"

subsection \<open>The serving boundary of app.py\<close>

text \<open>The two keys of the Flask session the routes use; a key may be absent.\<close>

record session =
  sess_history :: "item list option"
  sess_prev_questions :: "string list option"

text \<open>
  The JSON answers of \<open>/chat\<close>: status 200 with the response, status 400 with a fixed
  error text, status 500 with \<open>str(e)\<close> of the exception caught (kept as the exception).
\<close>

datatype reply = Success string | ClientError string | ServerError error

text \<open>\<open>session.get('history', [])\<close> and \<open>session.get('prev_questions', [])\<close>.\<close>

definition get_history :: "session \<Rightarrow> item list" where
  "get_history s = (case sess_history s of None \<Rightarrow> [] | Some h \<Rightarrow> h)"

definition get_prev_questions :: "session \<Rightarrow> string list" where
  "get_prev_questions s = (case sess_prev_questions s of None \<Rightarrow> [] | Some q \<Rightarrow> q)"

definition home :: "session \<Rightarrow> session" where
  "home s =
     (let s1 = (if sess_history s = None then s\<lparr>sess_history := Some []\<rparr> else s)
      in if sess_prev_questions s1 = None then s1\<lparr>sess_prev_questions := Some []\<rparr> else s1)"

definition reset_conversation :: "session \<Rightarrow> session" where
  "reset_conversation s = s\<lparr>sess_history := Some [], sess_prev_questions := Some []\<rparr>"

text \<open>
  \<open>chat_endpoint\<close>: the body is what \<open>request.get_json()\<close> returns, or the exception it
  raises. Everything is inside one \<open>try\<close>, whose handler answers 500 and leaves the
  session as it was.
\<close>

definition chat_endpoint ::
  "env \<Rightarrow> call list \<Rightarrow> session \<Rightarrow> error + pyval \<Rightarrow> call list \<times> reply \<times> session" where
  "chat_endpoint env t s body =
     (case body of
        Inl e \<Rightarrow> (t, ServerError e, s)
      | Inr data \<Rightarrow>
     if py_not data then (t, ClientError ''message is required'', s)
     else
     (case py_contains data ''message'' of
        Inl e \<Rightarrow> (t, ServerError e, s)
      | Inr False \<Rightarrow> (t, ClientError ''message is required'', s)
      | Inr True \<Rightarrow>
     (case py_getitem data ''message'' of
        Inl e \<Rightarrow> (t, ServerError e, s)
      | Inr raw \<Rightarrow>
     (case raw of
        PStr text \<Rightarrow>
          (let message = strip text
           in if message = [] then (t, ClientError ''message cannot be empty'', s)
              else
                (let history = get_history s;
                     prev_questions = get_prev_questions s
                 in case chat env t message history prev_questions of
                      (t', Inl e) \<Rightarrow> (t', ServerError e, s)
                    | (t', Inr None) \<Rightarrow> (t', ServerError TypeError, s)
                    | (t', Inr (Some (answer, updated_history, updated_questions))) \<Rightarrow>
                        (let serializable_history =
                               map (\<lambda>it. \<lparr>user = user it, bot = bot it, plans = None\<rparr>)
                                 updated_history
                         in (t', Success answer,
                             s\<lparr>sess_history := Some serializable_history,
                               sess_prev_questions := Some updated_questions\<rparr>))))
      | _ \<Rightarrow> (t, ServerError AttributeError, s)))))"

subsection \<open>What a run of the console loop processed\<close>

text \<open>
  The utterances the loop handed to \<open>chat\<close>, each with the log and the state it was
  processed in, in order. It follows the loop as long as \<open>chat\<close> returns a triple.
\<close>

fun steps ::
  "env \<Rightarrow> call list \<Rightarrow> string list \<Rightarrow> item list \<Rightarrow> string list
     \<Rightarrow> (call list \<times> string \<times> item list \<times> string list) list" where
  "steps env t [] history prev_questions = []"
| "steps env t (line # rest) history prev_questions =
     (let user_input = strip line
      in if lower user_input \<in> {''exit'', ''quit''} then []
         else if user_input = [] then steps env t rest history prev_questions
         else
           (t, user_input, history, prev_questions) #
           (case chat env t user_input history prev_questions of
              (t', Inr (Some (answer, history', prev_questions'))) \<Rightarrow>
                steps env t' rest history' prev_questions'
            | _ \<Rightarrow> []))"

text \<open>
  The intent the classifier gave for an utterance: the \<open>question_type\<close> of a classifier
  result that also carries \<open>premium_amounts\<close>; \<open>None\<close> when the classifier raised or
  a key is missing.
\<close>

definition intent_of :: "env \<Rightarrow> call list \<Rightarrow> string \<Rightarrow> string list \<Rightarrow> pyval option" where
  "intent_of env t question prev_questions =
     (case snd (understand_question env t question prev_questions) of
        Inl e \<Rightarrow> None
      | Inr understanding \<Rightarrow>
          (case (py_getitem understanding ''question_type'',
                 py_getitem understanding ''premium_amounts'') of
             (Inr q_type, Inr premiums) \<Rightarrow> Some q_type
           | _ \<Rightarrow> None))"

text \<open>
  An utterance is committed when it is a successful NEW (the fetch returned records) or a
  successful FOLLOW_UP (there was history).
\<close>

definition committed :: "env \<Rightarrow> call list \<Rightarrow> string \<Rightarrow> item list \<Rightarrow> string list \<Rightarrow> bool" where
  "committed env t question history prev_questions =
     (case understand_question env t question prev_questions of
        (t1, Inl e) \<Rightarrow> False
      | (t1, Inr understanding) \<Rightarrow>
          (case (py_getitem understanding ''question_type'',
                 py_getitem understanding ''premium_amounts'') of
             (Inr q_type, Inr premiums) \<Rightarrow>
               (q_type = PStr ''NEW'' \<and>
                  (case snd (get_plans env t1 premiums) of
                     Inl e \<Rightarrow> False
                   | Inr found \<Rightarrow> found \<noteq> []))
               \<or> (q_type = PStr ''FOLLOW_UP'' \<and> history \<noteq> [])
           | _ \<Rightarrow> False))"

definition is_Search :: "call \<Rightarrow> bool" where
  "is_Search c = (case c of Search q k f \<Rightarrow> True | _ \<Rightarrow> False)"

definition is_Llm1 :: "call \<Rightarrow> bool" where
  "is_Llm1 c = (case c of Llm1 m \<Rightarrow> True | _ \<Rightarrow> False)"

text \<open>What one lookup of the retriever returns for a key, with the empty list when the
  store raises, and the call it logs.\<close>

definition search_call :: "env \<Rightarrow> pyval \<Rightarrow> call" where
  "search_call env premium =
     Search (''insurance plan '' @ py_str env premium) 1 [(''premium'', premium)]"

definition lookup :: "env \<Rightarrow> call list \<Rightarrow> pyval \<Rightarrow> document list" where
  "lookup env t premium =
     (case similarity_search env t (''insurance plan '' @ py_str env premium) 1
             [(''premium'', premium)] of
        Inl e \<Rightarrow> []
      | Inr results \<Rightarrow> results)"

subsection \<open>A sample surrounding\<close>

text \<open>
  A store with two plans, a generator with a fixed answer (or a fixed failure), and a
  classifier that reads its answers from a script, one per call, and times out when the
  script is used up. \<open>sample_loads\<close> and \<open>sample_repr\<close> are \<open>json.loads\<close> and
  \<open>repr\<close> on the texts and values that occur below. The prompts are cut to their first
  sentence.
\<close>

definition plan_18000 :: document where
  "plan_18000 =
     \<lparr>page_content = ''Plan: Basic Care. Premium: 18000. Deductible: 25000.'',
      metadata = [(''premium'', PInt 18000)]\<rparr>"

definition plan_22500 :: document where
  "plan_22500 =
     \<lparr>page_content = ''Plan: Family Plus. Premium: 22500. Deductible: 0.'',
      metadata = [(''premium'', PInt 22500)]\<rparr>"

definition sample_store :: "(string \<times> pyval) list \<Rightarrow> error + document list" where
  "sample_store flt =
     (if flt = [(''premium'', PInt 18000)] then Inr [plan_18000]
      else if flt = [(''premium'', PInt 22500)] then Inr [plan_22500]
      else if flt = [(''premium'', PInt 404)] then Inl (CollaboratorFailure ''store unreachable'')
      else Inr [])"

definition contract_text :: "string \<Rightarrow> string \<Rightarrow> string \<Rightarrow> string" where
  "contract_text question_type amounts reason =
     ''{'' @ dq @ ''question_type'' @ dq @ '': '' @ dq @ question_type @ dq @ '', ''
     @ dq @ ''premium_amounts'' @ dq @ '': '' @ amounts @ '', ''
     @ dq @ ''reason'' @ dq @ '': '' @ dq @ reason @ dq @ ''}''"

definition contract_value :: "string \<Rightarrow> pyval \<Rightarrow> string \<Rightarrow> pyval" where
  "contract_value question_type amounts reason =
     PDict [(''question_type'', PStr question_type),
            (''premium_amounts'', amounts),
            (''reason'', PStr reason)]"

definition says_new :: string where
  "says_new = contract_text ''NEW'' ''[18000, 22500]'' ''2 premiums to compare''"

definition says_new_unknown :: string where
  "says_new_unknown = contract_text ''NEW'' ''[99999, 18500]'' ''2 premiums to compare''"

definition says_new_unreachable :: string where
  "says_new_unreachable = contract_text ''NEW'' ''[18000, 404]'' ''2 premiums to compare''"

definition says_follow_up :: string where
  "says_follow_up = contract_text ''FOLLOW_UP'' ''null'' ''Asking about previous results''"

definition says_invalid :: string where
  "says_invalid = contract_text ''INVALID'' ''null'' ''Not insurance related''"

definition says_greeting :: string where
  "says_greeting = contract_text ''GREETING'' ''null'' ''User says hello''"

definition says_no_amounts :: string where
  "says_no_amounts = ''{'' @ dq @ ''question_type'' @ dq @ '': '' @ dq @ ''FOLLOW_UP'' @ dq @ ''}''"

definition says_no_type :: string where
  "says_no_type = ''{'' @ dq @ ''premium_amounts'' @ dq @ '': null}''"

definition sample_loads :: "string \<Rightarrow> pyval option" where
  "sample_loads content =
     map_of
       [(says_new,
           contract_value ''NEW'' (PList [PInt 18000, PInt 22500]) ''2 premiums to compare''),
        (says_new_unknown,
           contract_value ''NEW'' (PList [PInt 99999, PInt 18500]) ''2 premiums to compare''),
        (says_new_unreachable,
           contract_value ''NEW'' (PList [PInt 18000, PInt 404]) ''2 premiums to compare''),
        (says_follow_up,
           contract_value ''FOLLOW_UP'' PNone ''Asking about previous results''),
        (says_invalid, contract_value ''INVALID'' PNone ''Not insurance related''),
        (says_greeting, contract_value ''GREETING'' PNone ''User says hello''),
        (says_no_amounts, PDict [(''question_type'', PStr ''FOLLOW_UP'')]),
        (says_no_type, PDict [(''premium_amounts'', PNone)]),
        (''[]'', PList [])]
       content"

definition sample_repr :: "pyval \<Rightarrow> string" where
  "sample_repr v =
     (case map_of
             [(PNone, ''None''),
              (PInt 18000, ''18000''),
              (PInt 22500, ''22500''),
              (PInt 99999, ''99999''),
              (PInt 18500, ''18500''),
              (PInt 404, ''404''),
              (PList [PInt 99999, PInt 18500], ''[99999, 18500]'')]
             v of
        None \<Rightarrow> []
      | Some s \<Rightarrow> s)"

definition sample_env :: "string list \<Rightarrow> error + string \<Rightarrow> env" where
  "sample_env script generated =
     \<lparr>classifier_prompt = ''You are a query classifier for an insurance comparison chatbot.'',
      advisor_prompt = ''You are an expert insurance advisor.'',
      llm1_invoke =
        (\<lambda>t request.
           case drop (length (filter is_Llm1 t)) script of
             [] \<Rightarrow> Inl (CollaboratorFailure ''classifier timed out'')
           | content # _ \<Rightarrow> Inr content),
      llm2_invoke = (\<lambda>t messages. generated),
      similarity_search =
        (\<lambda>t query k flt. case sample_store flt of Inl e \<Rightarrow> Inl e | Inr ds \<Rightarrow> Inr (take k ds)),
      json_loads = sample_loads,
      py_repr = sample_repr\<rparr>"

text \<open>
  A sample conversation at the console: a comparison, a follow-up typed with blanks around
  it, an empty line, a question off the subject, and \<open>EXIT\<close>; the classifier's script
  that goes with it; and the two turns the conversation commits.
\<close>

definition typed_lines :: "string list" where
  "typed_lines =
     [''compare 18000, 22500'', '' which is cheaper? '', '' '', ''what is the weather?'',
      ''EXIT'']"

definition sample_script :: "string list" where
  "sample_script = [says_new, says_follow_up, says_invalid]"

definition sample_answer :: string where
  "sample_answer = ''Basic Care is cheaper.''"

definition first_turn :: item where
  "first_turn =
     \<lparr>user = ''compare 18000, 22500'', bot = sample_answer,
      plans = Some [plan_18000, plan_22500]\<rparr>"

definition second_turn :: item where
  "second_turn =
     \<lparr>user = ''which is cheaper?'', bot = sample_answer,
      plans = Some [plan_18000, plan_22500]\<rparr>"

definition rejection :: string where
  "rejection =
     ''Please provide 2-3 premium amounts to compare.'' @ nl
     @ ''Example: '' @ sq @ ''compare 18000, 22500, 28000'' @ sq @ nl @ nl
     @ ''Reason: Not insurance related''"

section \<open>Properties\<close>

subsection \<open>The routes of the controller\<close>

lemmas model_simps = chat_def understand_question_def classifier_request_def
  generate_answer_def generator_request_def get_plans_def py_iter_def py_getitem_def py_str_def
  parse_fallback_def cached_plans_def Let_def

lemmas sample_simps = sample_env_def sample_loads_def sample_repr_def sample_store_def
  says_new_def says_new_unknown_def says_new_unreachable_def says_follow_up_def
  says_invalid_def says_greeting_def says_no_amounts_def says_no_type_def
  contract_text_def contract_value_def dq_def sq_def nl_def is_Llm1_def
  plan_18000_def plan_22500_def

lemma understand_question_log:
  "fst (understand_question env t u qs) = t @ [Llm1 (classifier_request env u qs)]"
  by (simp add: understand_question_def Let_def split: sum.splits)

lemma chat_classifier_raises:
  "understand_question env t u qs = (t1, Inl e) \<Longrightarrow> chat env t u h qs = (t1, Inl e)"
  by (simp add: chat_def)

lemma chat_invalid:
  assumes "understand_question env t u qs = (t1, Inr d)"
    and "py_getitem d ''question_type'' = Inr (PStr ''INVALID'')"
    and "py_getitem d ''premium_amounts'' = Inr p"
    and "py_getitem d ''reason'' = Inr r"
  shows "chat env t u h qs =
    (t1, Inr (Some (''Please provide 2-3 premium amounts to compare.'' @ nl
                @ ''Example: '' @ sq @ ''compare 18000, 22500, 28000'' @ sq @ nl @ nl
                @ ''Reason: '' @ py_str env r, h, qs)))"
  using assms by (simp add: chat_def)

lemma chat_new:
  assumes "understand_question env t u qs = (t1, Inr d)"
    and "py_getitem d ''question_type'' = Inr (PStr ''NEW'')"
    and "py_getitem d ''premium_amounts'' = Inr p"
  shows "chat env t u h qs =
    (case get_plans env t1 p of
       (t2, Inl e) \<Rightarrow> (t2, Inl e)
     | (t2, Inr found) \<Rightarrow>
         if found = [] then
           (t2, Inr (Some (''No plans found for premiums: '' @ py_str env p, h, qs)))
         else
           (case generate_answer env t2 u found h of
              (t3, Inl e) \<Rightarrow> (t3, Inl e)
            | (t3, Inr answer) \<Rightarrow>
                (t3, Inr (Some
                   (answer, h @ [\<lparr>user = u, bot = answer, plans = Some found\<rparr>],
                    qs @ [u])))))"
  using assms by (simp add: chat_def)

lemma chat_follow_up:
  assumes "understand_question env t u qs = (t1, Inr d)"
    and "py_getitem d ''question_type'' = Inr (PStr ''FOLLOW_UP'')"
    and "py_getitem d ''premium_amounts'' = Inr p"
  shows "chat env t u h qs =
    (if h = [] then
       (t1, Inr (Some (''Please ask a comparison question first with 2-3 premiums.'', h, qs)))
     else
       (case generate_answer env t1 u (cached_plans (last h)) h of
          (t3, Inl e) \<Rightarrow> (t3, Inl e)
        | (t3, Inr answer) \<Rightarrow>
            (t3, Inr (Some
               (answer,
                h @ [\<lparr>user = u, bot = answer, plans = Some (cached_plans (last h))\<rparr>],
                qs @ [u])))))"
  using assms by (simp add: chat_def Let_def)

lemma chat_unrouted:
  assumes "understand_question env t u qs = (t1, Inr d)"
    and "py_getitem d ''question_type'' = Inr q"
    and "py_getitem d ''premium_amounts'' = Inr p"
    and "q \<noteq> PStr ''INVALID''" and "q \<noteq> PStr ''NEW''" and "q \<noteq> PStr ''FOLLOW_UP''"
  shows "chat env t u h qs = (t1, Inr None)"
  using assms by (simp add: chat_def)

lemma chat_step:
  assumes "chat env t u h qs = (t', Inr (Some (a, h', qs')))"
  shows "if committed env t u h qs
         then (\<exists>found. h' = h @ [\<lparr>user = u, bot = a, plans = Some found\<rparr>]) \<and> qs' = qs @ [u]
         else h' = h \<and> qs' = qs"
  using assms
  by (auto simp add: chat_def committed_def Let_def split: prod.splits sum.splits if_splits)

lemma understand_question_eq:
  "snd (understand_question env t u qs) = Inr d \<Longrightarrow>
   understand_question env t u qs = (t @ [Llm1 (classifier_request env u qs)], Inr d)"
  using understand_question_log [of env t u qs]
  by (cases "understand_question env t u qs") simp

lemma intent_of_Some:
  assumes "intent_of env t u qs = Some q"
  shows "\<exists>d p. snd (understand_question env t u qs) = Inr d
           \<and> py_getitem d ''question_type'' = Inr q
           \<and> py_getitem d ''premium_amounts'' = Inr p"
  using assms by (auto simp add: intent_of_def split: sum.splits)

lemma chat_follow_up_step:
  assumes "intent_of env t u qs = Some (PStr ''FOLLOW_UP'')"
    and "h \<noteq> []"
    and "chat env t u h qs = (t1, Inr (Some (a, h1, qs1)))"
  shows "h1 = h @ [\<lparr>user = u, bot = a, plans = Some (cached_plans (last h))\<rparr>]
       \<and> qs1 = qs @ [u]
       \<and> t1 = t @ [Llm1 (classifier_request env u qs),
                   Llm2 (generator_request env u (cached_plans (last h)) h)]"
  using assms
  by (auto simp add: intent_of_def chat_def understand_question_def generate_answer_def Let_def
      split: prod.splits sum.splits if_splits)

subsection \<open>The console loop and the route, step by step\<close>

lemma main_loop_cases:
  assumes "main_loop env t out (line # rest) h qs = (t', out', Inr (h', qs'))"
  obtains
    (exit) "lower (strip line) \<in> {''exit'', ''quit''}" "t' = t" "out' = out" "h' = h" "qs' = qs"
  | (skip) "lower (strip line) \<notin> {''exit'', ''quit''}" "strip line = []"
      "main_loop env t out rest h qs = (t', out', Inr (h', qs'))"
  | (turn) t1 answer h1 qs1 where "lower (strip line) \<notin> {''exit'', ''quit''}" "strip line \<noteq> []"
      "chat env t (strip line) h qs = (t1, Inr (Some (answer, h1, qs1)))"
      "main_loop env t1 (out @ [answer]) rest h1 qs1 = (t', out', Inr (h', qs'))"
proof (cases "lower (strip line) \<in> {''exit'', ''quit''}")
  case True
  with assms exit show ?thesis by (simp add: Let_def)
next
  case False
  note ne = this
  show ?thesis
  proof (cases "strip line = []")
    case True
    with ne assms skip show ?thesis by (simp add: Let_def)
  next
    case False
    with ne assms turn show ?thesis
      by (auto simp add: Let_def split: prod.splits sum.splits option.splits)
  qed
qed

lemma main_loop_count:
  "main_loop env t out lines h qs = (t', out', Inr (h', qs')) \<Longrightarrow>
     length h' = length h
        + length (filter (\<lambda>(t0, u, h0, qs0). committed env t0 u h0 qs0) (steps env t lines h qs))
   \<and> length qs' = length qs
        + length (filter (\<lambda>(t0, u, h0, qs0). committed env t0 u h0 qs0) (steps env t lines h qs))"
proof (induction lines arbitrary: t out h qs)
  case Nil
  then show ?case by simp
next
  case (Cons line rest)
  from Cons.prems show ?case
  proof (cases rule: main_loop_cases)
    case exit
    then show ?thesis by (simp add: Let_def)
  next
    case skip
    with Cons.IH [OF skip(3)] show ?thesis by (simp add: Let_def)
  next
    case (turn t1 answer h1 qs1)
    from chat_step [OF turn(3)] Cons.IH [OF turn(4)] turn(1,2,3)
    show ?thesis by (auto simp add: Let_def split: if_splits)
  qed
qed

lemma main_loop_follow_ups:
  "h \<noteq> [] \<Longrightarrow>
   \<forall>(t0, u, h0, qs0) \<in> set (steps env t lines h qs).
      intent_of env t0 u qs0 = Some (PStr ''FOLLOW_UP'') \<Longrightarrow>
   main_loop env t out lines h qs = (t', out', Inr (h', qs')) \<Longrightarrow>
   \<exists>new_items new_calls.
      h' = h @ new_items \<and> t' = t @ new_calls
      \<and> length new_items = length (steps env t lines h qs)
      \<and> (\<forall>it \<in> set new_items. plans it = Some (cached_plans (last h)))
      \<and> (\<forall>c \<in> set new_calls. \<not> is_Search c)"
proof (induction lines arbitrary: t out h qs)
  case Nil
  then show ?case by simp
next
  case (Cons line rest)
  from Cons.prems(3) show ?case
  proof (cases rule: main_loop_cases)
    case exit
    then show ?thesis by (simp add: Let_def)
  next
    case skip
    from Cons.prems(2) skip have
      "\<forall>(t0, u, h0, qs0) \<in> set (steps env t rest h qs).
          intent_of env t0 u qs0 = Some (PStr ''FOLLOW_UP'')"
      by (simp add: Let_def)
    from Cons.IH [OF Cons.prems(1) this skip(3)] skip show ?thesis by (simp add: Let_def)
  next
    case (turn t1 answer h1 qs1)
    have st: "steps env t (line # rest) h qs = (t, strip line, h, qs) # steps env t1 rest h1 qs1"
      using turn by (simp add: Let_def)
    with Cons.prems(2) have i: "intent_of env t (strip line) qs = Some (PStr ''FOLLOW_UP'')"
      and rest: "\<forall>(t0, u, h0, qs0) \<in> set (steps env t1 rest h1 qs1).
          intent_of env t0 u qs0 = Some (PStr ''FOLLOW_UP'')"
      by simp_all
    let ?it = "\<lparr>user = strip line, bot = answer, plans = Some (cached_plans (last h))\<rparr>"
    from chat_follow_up_step [OF i Cons.prems(1) turn(3)] have
      h1: "h1 = h @ [?it]"
      and t1: "t1 = t @ [Llm1 (classifier_request env (strip line) qs),
                   Llm2 (generator_request env (strip line) (cached_plans (last h)) h)]"
      by simp_all
    from h1 have ne: "h1 \<noteq> []" and l: "cached_plans (last h1) = cached_plans (last h)"
      by (simp_all add: cached_plans_def)
    from Cons.IH [OF ne rest turn(4)] obtain new_items new_calls where
      a: "h' = h1 @ new_items" "t' = t1 @ new_calls"
         "length new_items = length (steps env t1 rest h1 qs1)"
         "\<forall>it \<in> set new_items. plans it = Some (cached_plans (last h1))"
         "\<forall>c \<in> set new_calls. \<not> is_Search c"
      by blast
    show ?thesis
    proof (intro exI conjI)
      show "h' = h @ (?it # new_items)" using a(1) h1 by simp
      show "t' = t @ ([Llm1 (classifier_request env (strip line) qs),
                   Llm2 (generator_request env (strip line) (cached_plans (last h)) h)] @ new_calls)"
        using a(2) t1 by simp
      show "length (?it # new_items) = length (steps env t (line # rest) h qs)"
        using a(3) st by simp
      show "\<forall>it \<in> set (?it # new_items). plans it = Some (cached_plans (last h))"
        using a(4) l by simp
      show "\<forall>c \<in> set ([Llm1 (classifier_request env (strip line) qs),
                   Llm2 (generator_request env (strip line) (cached_plans (last h)) h)] @ new_calls).
               \<not> is_Search c"
        using a(5) by (simp add: is_Search_def)
    qed
  qed
qed

lemma chat_endpoint_failure_keeps_session:
  assumes "chat_endpoint env t s body = (t', r, s')" and "\<forall>answer. r \<noteq> Success answer"
  shows "s' = s"
  using assms
  by (auto simp add: chat_endpoint_def Let_def
      split: sum.splits if_splits bool.splits pyval.splits prod.splits option.splits)

lemma chat_endpoint_message:
  assumes "map_of kvs ''message'' = Some (PStr msg)" and "strip msg \<noteq> []"
  shows "chat_endpoint env t s (Inr (PDict kvs)) =
     (case chat env t (strip msg) (get_history s) (get_prev_questions s) of
        (t', Inl e) \<Rightarrow> (t', ServerError e, s)
      | (t', Inr None) \<Rightarrow> (t', ServerError TypeError, s)
      | (t', Inr (Some (answer, updated_history, updated_questions))) \<Rightarrow>
          (t', Success answer,
           s\<lparr>sess_history :=
                Some (map (\<lambda>it. \<lparr>user = user it, bot = bot it, plans = None\<rparr>) updated_history),
              sess_prev_questions := Some updated_questions\<rparr>))"
proof -
  from assms(1) have "''message'' \<in> fst ` set kvs"
    by (metis map_of_eq_None_iff option.distinct(1))
  moreover from assms(1) have "kvs \<noteq> []" by auto
  ultimately show ?thesis
    using assms
    by (simp add: chat_endpoint_def py_not_def py_contains_def py_getitem_def Let_def)
qed

lemma chat_endpoint_follow_up:
  assumes "get_history s \<noteq> []"
    and "map_of kvs ''message'' = Some (PStr msg)" and "strip msg \<noteq> []"
    and "intent_of env t (strip msg) (get_prev_questions s) = Some (PStr ''FOLLOW_UP'')"
  shows "fst (chat_endpoint env t s (Inr (PDict kvs)))
          = t @ [Llm1 (classifier_request env (strip msg) (get_prev_questions s)),
                 Llm2 (generator_request env (strip msg) (cached_plans (last (get_history s)))
                         (get_history s))]"
proof -
  from intent_of_Some [OF assms(4)] obtain d p where
    sn: "snd (understand_question env t (strip msg) (get_prev_questions s)) = Inr d"
    and q: "py_getitem d ''question_type'' = Inr (PStr ''FOLLOW_UP'')"
    and p: "py_getitem d ''premium_amounts'' = Inr p"
    by blast
  note u = understand_question_eq [OF sn]
  show ?thesis
    using assms(1)
    by (simp add: chat_endpoint_message [OF assms(2,3)] chat_follow_up [OF u q p]
        generate_answer_def Let_def split: sum.splits)
qed

subsection \<open>The sample conversation, evaluated\<close>

lemma sample_lines:
  "strip ''compare 18000, 22500'' = ''compare 18000, 22500''"
  "strip '' compare 18000, 22500 '' = ''compare 18000, 22500''"
  "strip '' which is cheaper? '' = ''which is cheaper?''"
  "strip ''which is cheaper?'' = ''which is cheaper?''"
  "strip '' '' = []"
  "strip ''what is the weather?'' = ''what is the weather?''"
  "strip ''  what is the weather? '' = ''what is the weather?''"
  "strip ''EXIT'' = ''EXIT''"
  "strip ''quit'' = ''quit''"
  "lower ''compare 18000, 22500'' = ''compare 18000, 22500''"
  "lower ''which is cheaper?'' = ''which is cheaper?''"
  "lower ''what is the weather?'' = ''what is the weather?''"
  "lower ''EXIT'' = ''exit''"
  "lower ''quit'' = ''quit''"
  "lower [] = []"
  by code_simp+

lemmas sample_defs = typed_lines_def sample_script_def sample_answer_def first_turn_def
  second_turn_def rejection_def

lemma sample_chat:
  "snd (chat (sample_env sample_script (Inr sample_answer)) [] ''compare 18000, 22500'' [] [])
     = Inr (Some (sample_answer, [first_turn], [''compare 18000, 22500'']))"
  by (simp add: model_simps sample_simps sample_defs)

lemma sample_conversation:
  "snd (main_loop (sample_env sample_script (Inr sample_answer)) [] [] typed_lines [] [])
     = ([sample_answer, sample_answer, rejection],
        Inr ([first_turn, second_turn], [''compare 18000, 22500'', ''which is cheaper?'']))"
  by (simp add: model_simps sample_simps sample_defs sample_lines)

lemma sample_request:
  "snd (chat_endpoint (sample_env sample_script (Inr sample_answer)) []
          \<lparr>sess_history = None, sess_prev_questions = None\<rparr>
          (Inr (PDict [(''message'', PStr '' compare 18000, 22500 '')])))
     = (Success sample_answer,
        \<lparr>sess_history = Some [first_turn\<lparr>plans := None\<rparr>],
         sess_prev_questions = Some [''compare 18000, 22500'']\<rparr>)"
  by (simp add: chat_endpoint_def py_not_def py_contains_def get_history_def
      get_prev_questions_def model_simps sample_simps sample_defs sample_lines)

lemma sample_request_log:
  "fst (chat_endpoint (sample_env sample_script (Inr sample_answer)) []
          \<lparr>sess_history = None, sess_prev_questions = None\<rparr>
          (Inr (PDict [(''message'', PStr '' compare 18000, 22500 '')])))
     = [Llm1 (classifier_request (sample_env sample_script (Inr sample_answer))
                ''compare 18000, 22500'' []),
        search_call (sample_env sample_script (Inr sample_answer)) (PInt 18000),
        search_call (sample_env sample_script (Inr sample_answer)) (PInt 22500),
        Llm2 (generator_request (sample_env sample_script (Inr sample_answer))
                ''compare 18000, 22500'' [plan_18000, plan_22500] [])]"
  by (simp add: chat_endpoint_def py_not_def py_contains_def get_history_def
      get_prev_questions_def search_call_def model_simps sample_simps sample_defs sample_lines)

lemma with_fst: "snd p = y \<Longrightarrow> p = (fst p, y)"
  by (cases p) simp

lemma with_fst2: "snd p = (y, z) \<Longrightarrow> p = (fst p, y, z)"
  by (cases p) simp

subsection \<open>The classifier's fallback\<close>

text \<open>
  Claim C3, as amended. When the first model answers with a text on which \<open>json.loads\<close>
  raises, \<open>understand_question\<close> does not raise: it returns the fixed dict whose
  \<open>question_type\<close> is \<open>INVALID\<close>, whose \<open>premium_amounts\<close> is \<open>None\<close> and whose
  \<open>reason\<close> is the text \<open>Error parsing AI response\<close>; and \<open>chat\<close> then answers with
  the rejection message that ends in this reason, the session state as given.
\<close>

theorem understand_question_decode_fallback:
  assumes "llm1_invoke env t (classifier_request env u qs) = Inr content"
    and "json_loads env content = None"
  shows "understand_question env t u qs
           = (t @ [Llm1 (classifier_request env u qs)], Inr parse_fallback)
       \<and> py_getitem parse_fallback ''question_type'' = Inr (PStr ''INVALID'')
       \<and> py_getitem parse_fallback ''premium_amounts'' = Inr PNone
       \<and> py_getitem parse_fallback ''reason'' = Inr (PStr ''Error parsing AI response'')
       \<and> chat env t u h qs
           = (t @ [Llm1 (classifier_request env u qs)],
              Inr (Some (''Please provide 2-3 premium amounts to compare.'' @ nl
                         @ ''Example: '' @ sq @ ''compare 18000, 22500, 28000'' @ sq @ nl @ nl
                         @ ''Reason: Error parsing AI response'', h, qs)))"
proof -
  from assms have u: "understand_question env t u qs
           = (t @ [Llm1 (classifier_request env u qs)], Inr parse_fallback)"
    by (simp add: understand_question_def Let_def)
  have f: "py_getitem parse_fallback ''question_type'' = Inr (PStr ''INVALID'')"
    "py_getitem parse_fallback ''premium_amounts'' = Inr PNone"
    "py_getitem parse_fallback ''reason'' = Inr (PStr ''Error parsing AI response'')"
    by (simp_all add: parse_fallback_def py_getitem_def)
  from chat_invalid [OF u f] u f show ?thesis
    by (simp add: py_str_def)
qed

theorem understand_question_decode_fallback_witness:
  "llm1_invoke (sample_env [''oops''] (Inr sample_answer)) []
       (classifier_request (sample_env [''oops''] (Inr sample_answer)) ''hello'' []) = Inr ''oops''
   \<and> json_loads (sample_env [''oops''] (Inr sample_answer)) ''oops'' = None
   \<and> understand_question (sample_env [''oops''] (Inr sample_answer)) [] ''hello'' []
       = ([Llm1 (classifier_request (sample_env [''oops''] (Inr sample_answer)) ''hello'' [])],
          Inr parse_fallback)
   \<and> chat (sample_env [''oops''] (Inr sample_answer)) [] ''hello'' [] []
       = ([Llm1 (classifier_request (sample_env [''oops''] (Inr sample_answer)) ''hello'' [])],
          Inr (Some (''Please provide 2-3 premium amounts to compare.'' @ nl
                     @ ''Example: '' @ sq @ ''compare 18000, 22500, 28000'' @ sq @ nl @ nl
                     @ ''Reason: Error parsing AI response'', [], [])))"
proof -
  have a: "llm1_invoke (sample_env [''oops''] (Inr sample_answer)) []
       (classifier_request (sample_env [''oops''] (Inr sample_answer)) ''hello'' []) = Inr ''oops''"
    by (simp add: sample_env_def)
  have b: "json_loads (sample_env [''oops''] (Inr sample_answer)) ''oops'' = None"
    by (simp add: sample_simps)
  show ?thesis
    using understand_question_decode_fallback [OF a b, of "[]"] a b
    by simp
qed

text \<open>
  Claim C3 as written fails on two counts: the reason of the fallback is not the text
  \<open>parse error\<close>, and the answer \<open>[]\<close>, which is JSON but not the contract, comes back
  as the empty list (on which the controller's first subscript raises), not as INVALID.
\<close>

theorem parse_fallback_counterexample:
  "snd (understand_question (sample_env [''oops''] (Inr sample_answer)) [] ''hello'' [])
     = Inr parse_fallback
   \<and> py_getitem parse_fallback ''reason'' \<noteq> Inr (PStr ''parse error'')
   \<and> snd (understand_question (sample_env [''[]''] (Inr sample_answer)) [] ''hello'' [])
     = Inr (PList [])
   \<and> PList [] \<noteq> parse_fallback
   \<and> snd (chat (sample_env [''[]''] (Inr sample_answer)) [] ''hello'' [] []) = Inl TypeError"
  by (simp add: chat_def understand_question_def Let_def sample_simps py_getitem_def
      parse_fallback_def)

subsection \<open>The retriever\<close>

lemma get_plans_loop_closed_form:
  "get_plans_loop env t keys acc = (t', Inr found) \<Longrightarrow>
     t' = t @ map (search_call env) keys
     \<and> found = acc @ concat (map (\<lambda>i. take 1 (lookup env (t @ map (search_call env) (take i keys))
                                              (keys ! i))) [0..<length keys])"
proof (induction keys arbitrary: t acc)
  case Nil
  then show ?case by simp
next
  case (Cons k ks)
  let ?c = "search_call env k"
  from Cons.prems obtain results where
    r: "similarity_search env t (''insurance plan '' @ py_str env k) 1 [(''premium'', k)]
          = Inr results"
    and rest: "get_plans_loop env (t @ [?c]) ks
                 (case results of [] \<Rightarrow> acc | r # _ \<Rightarrow> acc @ [r]) = (t', Inr found)"
    by (auto simp add: Let_def search_call_def split: sum.splits)
  have acc': "(case results of [] \<Rightarrow> acc | r # _ \<Rightarrow> acc @ [r]) = acc @ take 1 (lookup env t k)"
    using r by (simp add: lookup_def split: list.splits)
  from Cons.IH [OF rest] have
    t': "t' = (t @ [?c]) @ map (search_call env) ks"
    and f: "found = (case results of [] \<Rightarrow> acc | r # _ \<Rightarrow> acc @ [r])
              @ concat (map (\<lambda>i. take 1 (lookup env ((t @ [?c]) @ map (search_call env) (take i ks))
                                              (ks ! i))) [0..<length ks])"
    by simp_all
  have idx: "[0..<length (k # ks)] = 0 # map Suc [0..<length ks]"
    by (simp add: upt_conv_Cons map_Suc_upt del: upt_Suc)
  show ?case
    unfolding idx using t' f acc' by (simp add: comp_def)
qed

text \<open>
  Claim C6. For a list of keys, \<open>get_plans\<close> issues exactly one search per key, in the
  order of the keys (the log grows by one \<open>Search\<close> call per key, each with \<open>k = 1\<close> and
  the filter on that key); its result is, key by key in that order, the first record of
  that key's search when there is one and nothing otherwise; so it is never longer than
  the list of keys.
\<close>

theorem get_plans_order_and_drop:
  assumes "get_plans env t (PList keys) = (t', Inr found)"
  shows "t' = t @ map (search_call env) keys
       \<and> found = concat (map (\<lambda>i. take 1 (lookup env (t @ map (search_call env) (take i keys))
                                               (keys ! i))) [0..<length keys])
       \<and> length found \<le> length keys"
proof -
  from assms have loop: "get_plans_loop env t keys [] = (t', Inr found)"
    by (simp add: get_plans_def py_iter_def)
  note cf = get_plans_loop_closed_form [OF loop]
  have "length (concat (map (\<lambda>i. take 1 (f i)) [0..<n])) \<le> n" for f :: "nat \<Rightarrow> document list" and n
    by (induction n) (simp_all add: min_def)
  with cf show ?thesis by simp
qed

theorem get_plans_order_and_drop_witness:
  "get_plans (sample_env [] (Inr ''ok'')) [] (PList [PInt 22500, PInt 99999, PInt 18000])
     = ([Search ''insurance plan 22500'' 1 [(''premium'', PInt 22500)],
         Search ''insurance plan 99999'' 1 [(''premium'', PInt 99999)],
         Search ''insurance plan 18000'' 1 [(''premium'', PInt 18000)]],
        Inr [plan_22500, plan_18000])
   \<and> length [plan_22500, plan_18000] \<le> length [PInt 22500, PInt 99999, PInt 18000]"
proof -
  let ?E = "sample_env [] (Inr ''ok'')"
  have a: "get_plans ?E [] (PList [PInt 22500, PInt 99999, PInt 18000])
     = ([Search ''insurance plan 22500'' 1 [(''premium'', PInt 22500)],
         Search ''insurance plan 99999'' 1 [(''premium'', PInt 99999)],
         Search ''insurance plan 18000'' 1 [(''premium'', PInt 18000)]],
        Inr [plan_22500, plan_18000])"
    by (simp add: get_plans_def py_iter_def py_str_def Let_def sample_env_def sample_store_def
        sample_repr_def)
  show ?thesis
    using get_plans_order_and_drop [OF a] a by simp
qed

subsection \<open>Messages instead of exceptions\<close>

text \<open>
  Claim C7. When the classifier's result carries \<open>premium_amounts\<close>: a NEW intent whose
  fetch returns no record, and a FOLLOW_UP intent on an empty history, both make \<open>chat\<close>
  return a message (it does not raise) together with the history and the question log it
  was given.
\<close>

theorem no_match_and_empty_history_are_messages:
  assumes "understand_question env t u qs = (t1, Inr d)"
    and "py_getitem d ''premium_amounts'' = Inr p"
  shows "(py_getitem d ''question_type'' = Inr (PStr ''NEW'') \<and> get_plans env t1 p = (t2, Inr [])
            \<longrightarrow> chat env t u h qs
                = (t2, Inr (Some (''No plans found for premiums: '' @ py_str env p, h, qs))))
       \<and> (py_getitem d ''question_type'' = Inr (PStr ''FOLLOW_UP'')
            \<longrightarrow> chat env t u [] qs
                = (t1, Inr (Some (''Please ask a comparison question first with 2-3 premiums.'',
                                  [], qs))))"
  using assms by (simp add: chat_new chat_follow_up)

theorem no_match_and_empty_history_are_messages_witness:
  "understand_question (sample_env [says_new_unknown] (Inr ''ok'')) [] ''compare 99999, 18500'' []
     = ([Llm1 (classifier_request (sample_env [says_new_unknown] (Inr ''ok''))
                 ''compare 99999, 18500'' [])],
        Inr (contract_value ''NEW'' (PList [PInt 99999, PInt 18500]) ''2 premiums to compare''))
   \<and> chat (sample_env [says_new_unknown] (Inr ''ok'')) [] ''compare 99999, 18500'' [] []
     = ([Llm1 (classifier_request (sample_env [says_new_unknown] (Inr ''ok''))
                 ''compare 99999, 18500'' []),
         Search ''insurance plan 99999'' 1 [(''premium'', PInt 99999)],
         Search ''insurance plan 18500'' 1 [(''premium'', PInt 18500)]],
        Inr (Some (''No plans found for premiums: [99999, 18500]'', [], [])))
   \<and> understand_question (sample_env [says_follow_up] (Inr ''ok'')) [] ''which is cheaper?'' []
     = ([Llm1 (classifier_request (sample_env [says_follow_up] (Inr ''ok''))
                 ''which is cheaper?'' [])],
        Inr (contract_value ''FOLLOW_UP'' PNone ''Asking about previous results''))
   \<and> chat (sample_env [says_follow_up] (Inr ''ok'')) [] ''which is cheaper?'' [] []
     = ([Llm1 (classifier_request (sample_env [says_follow_up] (Inr ''ok''))
                 ''which is cheaper?'' [])],
        Inr (Some (''Please ask a comparison question first with 2-3 premiums.'', [], [])))"
proof -
  let ?E = "sample_env [says_new_unknown] (Inr ''ok'')"
  let ?F = "sample_env [says_follow_up] (Inr ''ok'')"
  let ?T1 = "[Llm1 (classifier_request ?E ''compare 99999, 18500'' [])]"
  let ?P = "PList [PInt 99999, PInt 18500]"
  let ?D = "contract_value ''NEW'' ?P ''2 premiums to compare''"
  let ?T2 = "?T1 @ [Search ''insurance plan 99999'' 1 [(''premium'', PInt 99999)],
         Search ''insurance plan 18500'' 1 [(''premium'', PInt 18500)]]"
  let ?G = "contract_value ''FOLLOW_UP'' PNone ''Asking about previous results''"
  have a: "understand_question ?E [] ''compare 99999, 18500'' [] = (?T1, Inr ?D)"
    by (simp add: understand_question_def Let_def sample_simps)
  have b: "py_getitem ?D ''premium_amounts'' = Inr ?P"
    by (simp add: contract_value_def py_getitem_def)
  have c: "py_getitem ?D ''question_type'' = Inr (PStr ''NEW'')"
    by (simp add: contract_value_def py_getitem_def)
  have d: "get_plans ?E ?T1 ?P = (?T2, Inr [])"
    by (simp add: get_plans_def py_iter_def py_str_def Let_def sample_simps)
  have e: "understand_question ?F [] ''which is cheaper?'' []
             = ([Llm1 (classifier_request ?F ''which is cheaper?'' [])], Inr ?G)"
    by (simp add: understand_question_def Let_def sample_simps)
  have f: "py_getitem ?G ''premium_amounts'' = Inr PNone"
    by (simp add: contract_value_def py_getitem_def)
  have g: "py_getitem ?G ''question_type'' = Inr (PStr ''FOLLOW_UP'')"
    by (simp add: contract_value_def py_getitem_def)
  have r: "py_str ?E ?P = ''[99999, 18500]''"
    by (simp add: py_str_def sample_simps)
  show ?thesis
    using no_match_and_empty_history_are_messages [OF a b, of ?T2 "[]"]
      no_match_and_empty_history_are_messages [OF e f, of "[]" "[]"] a c d e g r
    by simp
qed

subsection \<open>Results outside the contract\<close>

text \<open>
  Claim C10. When the classifier's answer decodes to a dict: if it has both
  \<open>question_type\<close> and \<open>premium_amounts\<close> and the type is none of \<open>NEW\<close>,
  \<open>FOLLOW_UP\<close>, \<open>INVALID\<close>, then \<open>chat\<close> takes no route and returns \<open>None\<close>; if
  \<open>question_type\<close> is missing, or it is there and \<open>premium_amounts\<close> is missing, then
  \<open>chat\<close> raises \<open>KeyError\<close> for that key: the fallback of \<open>understand_question\<close> only
  guards the decoding.
\<close>

theorem unrecognised_intent_and_missing_keys:
  assumes "llm1_invoke env t (classifier_request env u qs) = Inr content"
    and "json_loads env content = Some (PDict kvs)"
  shows "(\<forall>q p. map_of kvs ''question_type'' = Some q \<and> map_of kvs ''premium_amounts'' = Some p
             \<and> q \<noteq> PStr ''NEW'' \<and> q \<noteq> PStr ''FOLLOW_UP'' \<and> q \<noteq> PStr ''INVALID''
            \<longrightarrow> chat env t u h qs = (t @ [Llm1 (classifier_request env u qs)], Inr None))
       \<and> (map_of kvs ''question_type'' = None
            \<longrightarrow> chat env t u h qs
                = (t @ [Llm1 (classifier_request env u qs)], Inl (KeyError ''question_type'')))
       \<and> (map_of kvs ''question_type'' \<noteq> None \<and> map_of kvs ''premium_amounts'' = None
            \<longrightarrow> chat env t u h qs
                = (t @ [Llm1 (classifier_request env u qs)], Inl (KeyError ''premium_amounts'')))"
  using assms
  by (auto simp add: chat_def understand_question_def Let_def py_getitem_def)

theorem unrecognised_intent_and_missing_keys_witness:
  "chat (sample_env [says_greeting] (Inr ''ok'')) [] ''hello there'' [] []
     = ([Llm1 (classifier_request (sample_env [says_greeting] (Inr ''ok'')) ''hello there'' [])],
        Inr None)
   \<and> chat (sample_env [says_no_type] (Inr ''ok'')) [] ''hello there'' [] []
     = ([Llm1 (classifier_request (sample_env [says_no_type] (Inr ''ok'')) ''hello there'' [])],
        Inl (KeyError ''question_type''))
   \<and> chat (sample_env [says_no_amounts] (Inr ''ok'')) [] ''hello there'' [] []
     = ([Llm1 (classifier_request (sample_env [says_no_amounts] (Inr ''ok'')) ''hello there'' [])],
        Inl (KeyError ''premium_amounts''))"
proof -
  let ?E = "sample_env [says_greeting] (Inr ''ok'')"
  let ?F = "sample_env [says_no_type] (Inr ''ok'')"
  let ?G = "sample_env [says_no_amounts] (Inr ''ok'')"
  have a: "llm1_invoke ?E [] (classifier_request ?E ''hello there'' []) = Inr says_greeting"
    by (simp add: sample_env_def)
  have a': "json_loads ?E says_greeting
      = Some (PDict [(''question_type'', PStr ''GREETING''), (''premium_amounts'', PNone),
                     (''reason'', PStr ''User says hello'')])"
    by (simp add: sample_simps)
  have b: "llm1_invoke ?F [] (classifier_request ?F ''hello there'' []) = Inr says_no_type"
    by (simp add: sample_env_def)
  have b': "json_loads ?F says_no_type = Some (PDict [(''premium_amounts'', PNone)])"
    by (simp add: sample_simps)
  have c: "llm1_invoke ?G [] (classifier_request ?G ''hello there'' []) = Inr says_no_amounts"
    by (simp add: sample_env_def)
  have c': "json_loads ?G says_no_amounts = Some (PDict [(''question_type'', PStr ''FOLLOW_UP'')])"
    by (simp add: sample_simps)
  show ?thesis
    using unrecognised_intent_and_missing_keys [OF a a', of "[]"]
      unrecognised_intent_and_missing_keys [OF b b', of "[]"]
      unrecognised_intent_and_missing_keys [OF c c', of "[]"]
    by simp
qed

subsection \<open>The two logs grow together\<close>

text \<open>
  Claim C5. A call of \<open>chat\<close> that returns its triple either returns both logs as they
  were or appends exactly one turn to the history and the utterance to the question log.
  So equal lengths are kept: by the console loop, from any state with equal lengths (its
  initial state is two empty lists), and by the \<open>/chat\<close> route on the two session keys,
  whatever the request and its outcome; and the web session starts from two empty lists,
  at the first visit of a fresh session and after every reset.
\<close>

theorem log_lengths_stay_equal:
  "(chat env t u h qs = (t1, Inr (Some (a, h1, qs1)))
      \<longrightarrow> (h1 = h \<and> qs1 = qs) \<or> (\<exists>it. h1 = h @ [it] \<and> qs1 = qs @ [u]))
   \<and> (length h = length qs \<and> main_loop env t out lines h qs = (t2, out2, Inr (h2, qs2))
      \<longrightarrow> length h2 = length qs2)
   \<and> (length (get_history s) = length (get_prev_questions s)
        \<and> chat_endpoint env t s body = (t3, r, s3)
      \<longrightarrow> length (get_history s3) = length (get_prev_questions s3))
   \<and> (get_history (home \<lparr>sess_history = None, sess_prev_questions = None\<rparr>),
        get_prev_questions (home \<lparr>sess_history = None, sess_prev_questions = None\<rparr>))
       = ([], [])
   \<and> (get_history (reset_conversation s), get_prev_questions (reset_conversation s)) = ([], [])"
proof (intro conjI impI)
  show "(get_history (home \<lparr>sess_history = None, sess_prev_questions = None\<rparr>),
        get_prev_questions (home \<lparr>sess_history = None, sess_prev_questions = None\<rparr>))
       = ([], [])"
    by (simp add: home_def get_history_def get_prev_questions_def)
next
  show "(get_history (reset_conversation s), get_prev_questions (reset_conversation s)) = ([], [])"
    by (simp add: reset_conversation_def get_history_def get_prev_questions_def)
next
  assume "chat env t u h qs = (t1, Inr (Some (a, h1, qs1)))"
  from chat_step [OF this]
  show "(h1 = h \<and> qs1 = qs) \<or> (\<exists>it. h1 = h @ [it] \<and> qs1 = qs @ [u])"
    by (auto split: if_splits)
next
  have loop: "length h = length qs \<Longrightarrow> main_loop env t out lines h qs = (t2, out2, Inr (h2, qs2))
        \<Longrightarrow> length h2 = length qs2" for t out h qs
  proof (induction lines arbitrary: t out h qs)
    case Nil
    then show ?case by simp
  next
    case (Cons line rest)
    show ?case
    proof (cases "lower (strip line) \<in> {''exit'', ''quit''}")
      case True
      with Cons.prems show ?thesis by (simp add: Let_def)
    next
      case False
      note not_exit = this
      show ?thesis
      proof (cases "strip line = []")
        case True
        with not_exit Cons.prems Cons.IH show ?thesis by (simp add: Let_def)
      next
        case False
        with not_exit Cons.prems obtain t' answer h' qs' where
          c: "chat env t (strip line) h qs = (t', Inr (Some (answer, h', qs')))"
          and m: "main_loop env t' (out @ [answer]) rest h' qs' = (t2, out2, Inr (h2, qs2))"
          by (auto simp add: Let_def split: prod.splits sum.splits option.splits)
        from chat_step [OF c] Cons.prems(1) have "length h' = length qs'"
          by (auto split: if_splits)
        from Cons.IH [OF this m] show ?thesis .
      qed
    qed
  qed
  assume "length h = length qs \<and> main_loop env t out lines h qs = (t2, out2, Inr (h2, qs2))"
  then show "length h2 = length qs2" using loop by blast
next
  assume a: "length (get_history s) = length (get_prev_questions s)
        \<and> chat_endpoint env t s body = (t3, r, s3)"
  show "length (get_history s3) = length (get_prev_questions s3)"
  proof (cases "\<exists>answer. r = Success answer")
    case False
    with a have "s3 = s"
      by (auto simp add: chat_endpoint_def Let_def
          split: sum.splits if_splits bool.splits pyval.splits prod.splits option.splits)
    with a show ?thesis by simp
  next
    case True
    then obtain answer where r: "r = Success answer" by blast
    with a obtain msg t' h' qs' where
      c: "chat env t (strip msg) (get_history s) (get_prev_questions s)
            = (t', Inr (Some (answer, h', qs')))"
      and s3: "s3 = s\<lparr>sess_history := Some (map (\<lambda>it. \<lparr>user = user it, bot = bot it, plans = None\<rparr>) h'),
                      sess_prev_questions := Some qs'\<rparr>"
      by (auto simp add: chat_endpoint_def Let_def
          split: sum.splits if_splits bool.splits pyval.splits prod.splits option.splits)
    from chat_step [OF c] a have "length h' = length qs'"
      by (auto split: if_splits)
    with s3 show ?thesis by (simp add: get_history_def get_prev_questions_def)
  qed
qed

theorem log_lengths_stay_equal_witness:
  "snd (chat (sample_env sample_script (Inr sample_answer)) [] ''compare 18000, 22500'' [] [])
     = Inr (Some (sample_answer, [first_turn], [''compare 18000, 22500'']))
   \<and> [first_turn] = [] @ [first_turn]
   \<and> [''compare 18000, 22500''] = [] @ [''compare 18000, 22500'']
   \<and> length ([] :: item list) = length ([] :: string list)
   \<and> snd (main_loop (sample_env sample_script (Inr sample_answer)) [] [] typed_lines [] [])
     = ([sample_answer, sample_answer, rejection],
        Inr ([first_turn, second_turn], [''compare 18000, 22500'', ''which is cheaper?'']))
   \<and> length [first_turn, second_turn] = length [''compare 18000, 22500'', ''which is cheaper?'']
   \<and> length (get_history \<lparr>sess_history = None, sess_prev_questions = None\<rparr>)
       = length (get_prev_questions \<lparr>sess_history = None, sess_prev_questions = None\<rparr>)
   \<and> snd (chat_endpoint (sample_env sample_script (Inr sample_answer)) []
          \<lparr>sess_history = None, sess_prev_questions = None\<rparr>
          (Inr (PDict [(''message'', PStr '' compare 18000, 22500 '')])))
     = (Success sample_answer,
        \<lparr>sess_history = Some [first_turn\<lparr>plans := None\<rparr>],
         sess_prev_questions = Some [''compare 18000, 22500'']\<rparr>)
   \<and> length (get_history \<lparr>sess_history = Some [first_turn\<lparr>plans := None\<rparr>],
         sess_prev_questions = Some [''compare 18000, 22500'']\<rparr>)
       = length (get_prev_questions \<lparr>sess_history = Some [first_turn\<lparr>plans := None\<rparr>],
         sess_prev_questions = Some [''compare 18000, 22500'']\<rparr>)"
proof -
  let ?E = "sample_env sample_script (Inr sample_answer)"
  let ?s = "\<lparr>sess_history = None, sess_prev_questions = None\<rparr>"
  note c = with_fst [OF sample_chat]
  note m = with_fst2 [OF sample_conversation]
  note r = with_fst2 [OF sample_request]
  have m': "length ([] :: item list) = length ([] :: string list)
      \<and> main_loop ?E [] [] typed_lines [] []
        = (fst (main_loop ?E [] [] typed_lines [] []), [sample_answer, sample_answer, rejection],
           Inr ([first_turn, second_turn], [''compare 18000, 22500'', ''which is cheaper?'']))"
    using m by simp
  have r': "length (get_history ?s) = length (get_prev_questions ?s)
      \<and> chat_endpoint ?E [] ?s (Inr (PDict [(''message'', PStr '' compare 18000, 22500 '')]))
        = (fst (chat_endpoint ?E [] ?s (Inr (PDict [(''message'', PStr '' compare 18000, 22500 '')]))),
           Success sample_answer,
           \<lparr>sess_history = Some [first_turn\<lparr>plans := None\<rparr>],
            sess_prev_questions = Some [''compare 18000, 22500'']\<rparr>)"
    using r by (simp add: get_history_def get_prev_questions_def)
  note k1 = log_lengths_stay_equal [THEN conjunct1, THEN mp, OF c]
  note k2 = log_lengths_stay_equal [THEN conjunct2, THEN conjunct1, THEN mp, OF m']
  note k3 = log_lengths_stay_equal [THEN conjunct2, THEN conjunct2, THEN conjunct1, THEN mp, OF r']
  show ?thesis
    using k1 k2 k3 sample_chat sample_conversation sample_request
    by (simp add: get_history_def get_prev_questions_def)
qed

subsection \<open>Only successful turns are appended\<close>

text \<open>
  Claim C2. A call of \<open>chat\<close> that returns its triple appends exactly one turn and the
  utterance when the utterance is committed (a NEW whose fetch returned records, or a
  FOLLOW_UP on a non-empty history), and returns both logs unchanged otherwise (INVALID,
  empty fetch, empty history). So, for every sequence of lines the console loop processes
  up to its \<open>break\<close>, each log is longer at the end by exactly the number of committed
  utterances among those processed.
\<close>

theorem append_on_success_only:
  "(chat env t u h qs = (t1, Inr (Some (a, h1, qs1))) \<longrightarrow>
      (if committed env t u h qs
       then (\<exists>it. h1 = h @ [it]) \<and> qs1 = qs @ [u]
       else h1 = h \<and> qs1 = qs))
   \<and> (main_loop env t out lines h qs = (t2, out2, Inr (h2, qs2)) \<longrightarrow>
        length h2 = length h
          + length (filter (\<lambda>(t0, u0, h0, qs0). committed env t0 u0 h0 qs0)
                      (steps env t lines h qs))
      \<and> length qs2 = length qs
          + length (filter (\<lambda>(t0, u0, h0, qs0). committed env t0 u0 h0 qs0)
                      (steps env t lines h qs)))"
proof (intro conjI impI)
  assume "chat env t u h qs = (t1, Inr (Some (a, h1, qs1)))"
  from chat_step [OF this]
  show "if committed env t u h qs
       then (\<exists>it. h1 = h @ [it]) \<and> qs1 = qs @ [u]
       else h1 = h \<and> qs1 = qs"
    by (auto split: if_splits)
next
  assume m: "main_loop env t out lines h qs = (t2, out2, Inr (h2, qs2))"
  from main_loop_count [OF m]
  show "length h2 = length h
          + length (filter (\<lambda>(t0, u0, h0, qs0). committed env t0 u0 h0 qs0)
                      (steps env t lines h qs))"
    and "length qs2 = length qs
          + length (filter (\<lambda>(t0, u0, h0, qs0). committed env t0 u0 h0 qs0)
                      (steps env t lines h qs))"
    by simp_all
qed

theorem append_on_success_only_witness:
  "snd (chat (sample_env sample_script (Inr sample_answer)) [] ''compare 18000, 22500'' [] [])
     = Inr (Some (sample_answer, [first_turn], [''compare 18000, 22500'']))
   \<and> committed (sample_env sample_script (Inr sample_answer)) [] ''compare 18000, 22500'' [] []
   \<and> snd (main_loop (sample_env sample_script (Inr sample_answer)) [] [] typed_lines [] [])
     = ([sample_answer, sample_answer, rejection],
        Inr ([first_turn, second_turn], [''compare 18000, 22500'', ''which is cheaper?'']))
   \<and> length (steps (sample_env sample_script (Inr sample_answer)) [] typed_lines [] []) = 3
   \<and> length (filter (\<lambda>(t0, u0, h0, qs0).
                 committed (sample_env sample_script (Inr sample_answer)) t0 u0 h0 qs0)
               (steps (sample_env sample_script (Inr sample_answer)) [] typed_lines [] [])) = 2"
proof -
  let ?E = "sample_env sample_script (Inr sample_answer)"
  note c = with_fst [OF sample_chat]
  note m = with_fst2 [OF sample_conversation]
  note k1 = append_on_success_only [THEN conjunct1, THEN mp, OF c]
  note k2 = append_on_success_only [THEN conjunct2, THEN mp, OF m]
  have cm: "committed ?E [] ''compare 18000, 22500'' [] []"
    by (simp add: committed_def model_simps sample_simps sample_defs)
  have st: "length (steps ?E [] typed_lines [] []) = 3"
    by (simp add: model_simps sample_simps sample_defs sample_lines)
  show ?thesis
    using k1 k2 cm st sample_chat sample_conversation by simp
qed

subsection \<open>Follow-ups reuse the records of the turn before\<close>

text \<open>
  Claim C1. On a non-empty history, an utterance classified FOLLOW_UP that \<open>chat\<close>
  answers makes a turn whose \<open>plans\<close> are the records of the last turn of the history it
  was processed on (read as the code reads them, with the empty list when that turn has
  no \<open>plans\<close> entry, as the turns stored by the web session have none), the same list in
  the same order, and the only external calls are the classifier and the generator: no
  search. Over the console loop, when every utterance processed is classified FOLLOW_UP,
  however many there are, every turn added carries the records of the turn the run
  started from, one turn per utterance, and the log shows no search at all. At the
  \<open>/chat\<close> route too a FOLLOW_UP on a non-empty stored history calls the classifier and
  then the generator, with the records read from the last stored turn, and nothing else.
\<close>

theorem follow_up_record_identity:
  "(intent_of env t u qs = Some (PStr ''FOLLOW_UP'') \<and> h \<noteq> []
      \<and> chat env t u h qs = (t1, Inr (Some (a, h1, qs1)))
     \<longrightarrow> h1 = h @ [\<lparr>user = u, bot = a, plans = Some (cached_plans (last h))\<rparr>]
       \<and> t1 = t @ [Llm1 (classifier_request env u qs),
                   Llm2 (generator_request env u (cached_plans (last h)) h)])
   \<and> (h \<noteq> []
      \<and> (\<forall>(t0, u0, h0, qs0) \<in> set (steps env t lines h qs).
            intent_of env t0 u0 qs0 = Some (PStr ''FOLLOW_UP''))
      \<and> main_loop env t out lines h qs = (t2, out2, Inr (h2, qs2))
     \<longrightarrow> (\<exists>new_items new_calls.
            h2 = h @ new_items \<and> t2 = t @ new_calls
            \<and> length new_items = length (steps env t lines h qs)
            \<and> (\<forall>it \<in> set new_items. plans it = Some (cached_plans (last h)))
            \<and> (\<forall>c \<in> set new_calls. \<not> is_Search c)))
   \<and> (get_history s \<noteq> []
      \<and> map_of kvs ''message'' = Some (PStr msg) \<and> strip msg \<noteq> []
      \<and> intent_of env t (strip msg) (get_prev_questions s) = Some (PStr ''FOLLOW_UP'')
     \<longrightarrow> fst (chat_endpoint env t s (Inr (PDict kvs)))
          = t @ [Llm1 (classifier_request env (strip msg) (get_prev_questions s)),
                 Llm2 (generator_request env (strip msg) (cached_plans (last (get_history s)))
                         (get_history s))])"
  using chat_follow_up_step [of env t u qs h t1 a h1 qs1]
    main_loop_follow_ups [of h env t lines qs out t2 out2 h2 qs2]
    chat_endpoint_follow_up [of s kvs msg env t]
  by blast

theorem follow_up_record_identity_witness:
  "intent_of (sample_env [says_follow_up, says_follow_up] (Inr sample_answer)) []
      ''which is cheaper?'' [''compare 18000, 22500''] = Some (PStr ''FOLLOW_UP'')
   \<and> chat (sample_env [says_follow_up, says_follow_up] (Inr sample_answer)) []
        ''which is cheaper?'' [first_turn] [''compare 18000, 22500'']
      = ([Llm1 (classifier_request (sample_env [says_follow_up, says_follow_up] (Inr sample_answer))
                  ''which is cheaper?'' [''compare 18000, 22500'']),
          Llm2 (generator_request (sample_env [says_follow_up, says_follow_up] (Inr sample_answer))
                  ''which is cheaper?'' [plan_18000, plan_22500] [first_turn])],
         Inr (Some (sample_answer, [first_turn, second_turn],
                    [''compare 18000, 22500'', ''which is cheaper?''])))
   \<and> plans second_turn = plans first_turn
   \<and> map (\<lambda>(t0, u0, h0, qs0).
             intent_of (sample_env [says_follow_up, says_follow_up] (Inr sample_answer)) t0 u0 qs0)
         (steps (sample_env [says_follow_up, says_follow_up] (Inr sample_answer)) []
            [''which is cheaper?'', '' which is cheaper? '', ''quit'']
            [first_turn] [''compare 18000, 22500''])
      = [Some (PStr ''FOLLOW_UP''), Some (PStr ''FOLLOW_UP'')]
   \<and> snd (main_loop (sample_env [says_follow_up, says_follow_up] (Inr sample_answer)) [] []
             [''which is cheaper?'', '' which is cheaper? '', ''quit'']
             [first_turn] [''compare 18000, 22500''])
      = ([sample_answer, sample_answer],
         Inr ([first_turn, second_turn, second_turn],
              [''compare 18000, 22500'', ''which is cheaper?'', ''which is cheaper?'']))
   \<and> filter is_Search
         (fst (main_loop (sample_env [says_follow_up, says_follow_up] (Inr sample_answer))
                 [] [] [''which is cheaper?'', '' which is cheaper? '', ''quit'']
                 [first_turn] [''compare 18000, 22500'']))
      = []
   \<and> fst (chat_endpoint (sample_env [says_follow_up, says_follow_up] (Inr sample_answer)) []
             \<lparr>sess_history = Some [first_turn\<lparr>plans := None\<rparr>],
              sess_prev_questions = Some [''compare 18000, 22500'']\<rparr>
             (Inr (PDict [(''message'', PStr '' which is cheaper? '')])))
      = [Llm1 (classifier_request (sample_env [says_follow_up, says_follow_up] (Inr sample_answer))
                  ''which is cheaper?'' [''compare 18000, 22500'']),
         Llm2 (generator_request (sample_env [says_follow_up, says_follow_up] (Inr sample_answer))
                  ''which is cheaper?'' [] [first_turn\<lparr>plans := None\<rparr>])]"
proof -
  let ?E = "sample_env [says_follow_up, says_follow_up] (Inr sample_answer)"
  let ?L = "[''which is cheaper?'', '' which is cheaper? '', ''quit'']"
  let ?Q = "[''compare 18000, 22500'']"
  have i: "intent_of ?E [] ''which is cheaper?'' ?Q = Some (PStr ''FOLLOW_UP'')"
    by (simp add: intent_of_def model_simps sample_simps)
  have c: "snd (chat ?E [] ''which is cheaper?'' [first_turn] ?Q)
      = Inr (Some (sample_answer, [first_turn, second_turn],
                    [''compare 18000, 22500'', ''which is cheaper?'']))"
    by (simp add: model_simps sample_simps sample_defs)
  have a: "intent_of ?E [] ''which is cheaper?'' ?Q = Some (PStr ''FOLLOW_UP'')
      \<and> [first_turn] \<noteq> []
      \<and> chat ?E [] ''which is cheaper?'' [first_turn] ?Q
        = (fst (chat ?E [] ''which is cheaper?'' [first_turn] ?Q),
           Inr (Some (sample_answer, [first_turn, second_turn],
                    [''compare 18000, 22500'', ''which is cheaper?''])))"
    using i with_fst [OF c] by simp
  have s: "\<forall>(t0, u0, h0, qs0) \<in> set (steps ?E [] ?L [first_turn] ?Q).
             intent_of ?E t0 u0 qs0 = Some (PStr ''FOLLOW_UP'')"
    by (simp add: intent_of_def model_simps sample_simps sample_defs sample_lines)
  have m: "snd (main_loop ?E [] [] ?L [first_turn] ?Q)
      = ([sample_answer, sample_answer],
         Inr ([first_turn, second_turn, second_turn],
              [''compare 18000, 22500'', ''which is cheaper?'', ''which is cheaper?'']))"
    by (simp add: model_simps sample_simps sample_defs sample_lines)
  have b: "[first_turn] \<noteq> []
      \<and> (\<forall>(t0, u0, h0, qs0) \<in> set (steps ?E [] ?L [first_turn] ?Q).
             intent_of ?E t0 u0 qs0 = Some (PStr ''FOLLOW_UP''))
      \<and> main_loop ?E [] [] ?L [first_turn] ?Q
        = (fst (main_loop ?E [] [] ?L [first_turn] ?Q), [sample_answer, sample_answer],
           Inr ([first_turn, second_turn, second_turn],
              [''compare 18000, 22500'', ''which is cheaper?'', ''which is cheaper?'']))"
    using s with_fst2 [OF m] by simp
  note k1 = follow_up_record_identity [THEN conjunct1, THEN mp, OF a]
  note k2 = follow_up_record_identity [THEN conjunct2, THEN conjunct1, THEN mp, OF b]
  let ?s = "\<lparr>sess_history = Some [first_turn\<lparr>plans := None\<rparr>], sess_prev_questions = Some ?Q\<rparr>"
  have w: "get_history ?s \<noteq> []
      \<and> map_of [(''message'', PStr '' which is cheaper? '')] ''message''
          = Some (PStr '' which is cheaper? '')
      \<and> strip '' which is cheaper? '' \<noteq> []
      \<and> intent_of ?E [] (strip '' which is cheaper? '') (get_prev_questions ?s)
          = Some (PStr ''FOLLOW_UP'')"
    using i by (simp add: sample_lines get_history_def get_prev_questions_def)
  note k3 = follow_up_record_identity [THEN conjunct2, THEN conjunct2, THEN mp, OF w]
  have web: "fst (chat_endpoint ?E [] ?s (Inr (PDict [(''message'', PStr '' which is cheaper? '')])))
      = [Llm1 (classifier_request ?E ''which is cheaper?'' ?Q),
         Llm2 (generator_request ?E ''which is cheaper?'' [] [first_turn\<lparr>plans := None\<rparr>])]"
    using k3
    by (simp add: sample_lines get_history_def get_prev_questions_def cached_plans_def)
  have cp: "cached_plans (last [first_turn]) = [plan_18000, plan_22500]"
    by (simp add: cached_plans_def first_turn_def)
  have pl: "plans second_turn = plans first_turn"
    by (simp add: first_turn_def second_turn_def)
  from k1 cp have t1: "fst (chat ?E [] ''which is cheaper?'' [first_turn] ?Q)
      = [Llm1 (classifier_request ?E ''which is cheaper?'' ?Q),
         Llm2 (generator_request ?E ''which is cheaper?'' [plan_18000, plan_22500] [first_turn])]"
    by simp
  from k2 have ns: "filter is_Search (fst (main_loop ?E [] [] ?L [first_turn] ?Q)) = []"
    by (auto simp add: filter_empty_conv)
  have s': "map (\<lambda>(t0, u0, h0, qs0). intent_of ?E t0 u0 qs0) (steps ?E [] ?L [first_turn] ?Q)
      = [Some (PStr ''FOLLOW_UP''), Some (PStr ''FOLLOW_UP'')]"
    by (simp add: intent_of_def model_simps sample_simps sample_defs sample_lines)
  from a t1 have c': "chat ?E [] ''which is cheaper?'' [first_turn] ?Q
      = ([Llm1 (classifier_request ?E ''which is cheaper?'' ?Q),
          Llm2 (generator_request ?E ''which is cheaper?'' [plan_18000, plan_22500] [first_turn])],
         Inr (Some (sample_answer, [first_turn, second_turn],
                    [''compare 18000, 22500'', ''which is cheaper?''])))"
    by simp
  show ?thesis
    using i c' pl s' m ns web by blast
qed

subsection \<open>Rejections leave no trace\<close>

text \<open>
  Claim C8. Take an utterance (a line whose stripped text is not empty and is neither
  \<open>exit\<close> nor \<open>quit\<close>) for which, at each of \<open>n\<close> submissions in a row, the classifier
  gives the same result: question type \<open>INVALID\<close>, with \<open>premium_amounts\<close> and \<open>reason\<close>
  present. Then each of the \<open>n\<close> calls of \<open>chat\<close> returns the same fixed message ending in
  the reason, with the history and the question log as given, and the console loop after
  these \<open>n\<close> lines is where it started, with \<open>n\<close> copies of the message printed and
  \<open>n\<close> classifier calls logged.
\<close>

theorem invalid_rejection_idempotent:
  assumes "strip line = u" and "u \<noteq> []" and "lower u \<notin> {''exit'', ''quit''}"
    and "\<forall>k<n. snd (understand_question env
                       (t @ replicate k (Llm1 (classifier_request env u qs))) u qs) = Inr d"
    and "py_getitem d ''question_type'' = Inr (PStr ''INVALID'')"
    and "py_getitem d ''premium_amounts'' = Inr p"
    and "py_getitem d ''reason'' = Inr r"
  shows "(\<forall>k<n. chat env (t @ replicate k (Llm1 (classifier_request env u qs))) u h qs
             = (t @ replicate (Suc k) (Llm1 (classifier_request env u qs)),
                Inr (Some (''Please provide 2-3 premium amounts to compare.'' @ nl
                           @ ''Example: '' @ sq @ ''compare 18000, 22500, 28000'' @ sq @ nl @ nl
                           @ ''Reason: '' @ py_str env r, h, qs))))
       \<and> main_loop env t out (replicate n line @ rest) h qs
           = main_loop env (t @ replicate n (Llm1 (classifier_request env u qs)))
               (out @ replicate n (''Please provide 2-3 premium amounts to compare.'' @ nl
                           @ ''Example: '' @ sq @ ''compare 18000, 22500, 28000'' @ sq @ nl @ nl
                           @ ''Reason: '' @ py_str env r))
               rest h qs"
proof -
  let ?c = "Llm1 (classifier_request env u qs)"
  let ?m = "''Please provide 2-3 premium amounts to compare.'' @ nl
                           @ ''Example: '' @ sq @ ''compare 18000, 22500, 28000'' @ sq @ nl @ nl
                           @ ''Reason: '' @ py_str env r"
  have one: "chat env (t @ replicate k ?c) u h qs
               = (t @ replicate (Suc k) ?c, Inr (Some (?m, h, qs)))" if "k < n" for k
  proof -
    from assms(4) that
    have "snd (understand_question env (t @ replicate k ?c) u qs) = Inr d" by blast
    from understand_question_eq [OF this]
    have "understand_question env (t @ replicate k ?c) u qs
            = (t @ replicate (Suc k) ?c, Inr d)"
      by (simp add: replicate_append_same)
    from chat_invalid [OF this assms(5,6,7)] show ?thesis .
  qed
  have loop: "\<forall>k<m. chat env (t0 @ replicate k ?c) u h qs
                       = (t0 @ replicate (Suc k) ?c, Inr (Some (?m, h, qs)))
        \<Longrightarrow> main_loop env t0 out0 (replicate m line @ rest) h qs
          = main_loop env (t0 @ replicate m ?c) (out0 @ replicate m ?m) rest h qs" for m t0 out0
  proof (induction m arbitrary: t0 out0)
    case 0
    then show ?case by simp
  next
    case (Suc m)
    from Suc.prems have first: "chat env t0 u h qs = (t0 @ [?c], Inr (Some (?m, h, qs)))"
      by fastforce
    have "\<forall>k<m. chat env ((t0 @ [?c]) @ replicate k ?c) u h qs
             = ((t0 @ [?c]) @ replicate (Suc k) ?c, Inr (Some (?m, h, qs)))"
    proof (intro allI impI)
      fix k assume "k < m"
      then have "Suc k < Suc m" by simp
      with Suc.prems have "chat env (t0 @ replicate (Suc k) ?c) u h qs
             = (t0 @ replicate (Suc (Suc k)) ?c, Inr (Some (?m, h, qs)))" by blast
      then show "chat env ((t0 @ [?c]) @ replicate k ?c) u h qs
             = ((t0 @ [?c]) @ replicate (Suc k) ?c, Inr (Some (?m, h, qs)))"
        by simp
    qed
    from Suc.IH [OF this, of "out0 @ [?m]"]
    have "main_loop env (t0 @ [?c]) (out0 @ [?m]) (replicate m line @ rest) h qs
            = main_loop env (t0 @ replicate (Suc m) ?c) (out0 @ replicate (Suc m) ?m) rest h qs"
      by (simp add: replicate_append_same)
    with first assms(1,2,3) show ?case
      by (simp add: Let_def)
  qed
  from one loop [of n t out] show ?thesis by blast
qed

theorem invalid_rejection_idempotent_witness:
  "strip ''  what is the weather? '' = ''what is the weather?''
   \<and> lower ''what is the weather?'' \<notin> {''exit'', ''quit''}
   \<and> map (\<lambda>k. snd (understand_question
                    (sample_env [says_invalid, says_invalid, says_invalid] (Inr sample_answer))
                    (replicate k (Llm1 (classifier_request
                       (sample_env [says_invalid, says_invalid, says_invalid] (Inr sample_answer))
                       ''what is the weather?'' [''compare 18000, 22500''])))
                    ''what is the weather?'' [''compare 18000, 22500'']))
         [0, 1, 2]
      = replicate 3 (Inr (contract_value ''INVALID'' PNone ''Not insurance related''))
   \<and> main_loop (sample_env [says_invalid, says_invalid, says_invalid] (Inr sample_answer)) [] []
        (replicate 3 ''  what is the weather? '' @ [''quit''])
        [first_turn] [''compare 18000, 22500'']
      = (replicate 3 (Llm1 (classifier_request
                       (sample_env [says_invalid, says_invalid, says_invalid] (Inr sample_answer))
                       ''what is the weather?'' [''compare 18000, 22500''])),
         replicate 3 rejection,
         Inr ([first_turn], [''compare 18000, 22500'']))"
proof -
  let ?E = "sample_env [says_invalid, says_invalid, says_invalid] (Inr sample_answer)"
  let ?Q = "[''compare 18000, 22500'']"
  let ?u = "''what is the weather?''"
  let ?c = "Llm1 (classifier_request ?E ?u ?Q)"
  let ?d = "contract_value ''INVALID'' PNone ''Not insurance related''"
  have h1: "strip ''  what is the weather? '' = ?u" by (rule sample_lines)
  have h2: "?u \<noteq> []" by simp
  have h3: "lower ?u \<notin> {''exit'', ''quit''}" by (simp add: sample_lines)
  have h4: "\<forall>k<3. snd (understand_question ?E ([] @ replicate k ?c) ?u ?Q) = Inr ?d"
  proof (intro allI impI)
    fix k :: nat assume "k < 3"
    then consider "k = 0" | "k = 1" | "k = 2" by linarith
    then show "snd (understand_question ?E ([] @ replicate k ?c) ?u ?Q) = Inr ?d"
    proof cases
      case 1
      then show ?thesis
        by (simp add: understand_question_def Let_def sample_simps)
    next
      case 2
      then show ?thesis
        by (simp add: understand_question_def Let_def sample_simps)
    next
      case 3
      then show ?thesis
        by (simp add: understand_question_def Let_def sample_simps numeral_2_eq_2)
    qed
  qed
  have h5: "py_getitem ?d ''question_type'' = Inr (PStr ''INVALID'')"
    by (simp add: contract_value_def py_getitem_def)
  have h6: "py_getitem ?d ''premium_amounts'' = Inr PNone"
    by (simp add: contract_value_def py_getitem_def)
  have h7: "py_getitem ?d ''reason'' = Inr (PStr ''Not insurance related'')"
    by (simp add: contract_value_def py_getitem_def)
  note k = invalid_rejection_idempotent [OF h1 h2 h3 h4 h5 h6 h7,
      of "[first_turn]" "[]" "[''quit'']", THEN conjunct2]
  have r: "''Please provide 2-3 premium amounts to compare.'' @ nl
             @ ''Example: '' @ sq @ ''compare 18000, 22500, 28000'' @ sq @ nl @ nl
             @ ''Reason: '' @ py_str ?E (PStr ''Not insurance related'') = rejection"
    by (simp add: rejection_def py_str_def)
  have h4': "map (\<lambda>k. snd (understand_question ?E (replicate k ?c) ?u ?Q)) [0, 1, 2]
      = replicate 3 (Inr ?d)"
    using h4 [rule_format, of 0] h4 [rule_format, of 1] h4 [rule_format, of 2]
    by (simp add: numeral_3_eq_3)
  show ?thesis
    using k h1 h3 h4' unfolding r
    by (simp add: sample_lines Let_def)
qed

subsection \<open>Failures of the collaborators\<close>

text \<open>
  Claim C4. \<open>chat\<close> catches nothing: when the classifier call raises, when the
  retriever raises on a NEW intent, or when the generator call raises (after a NEW with
  records, or after a FOLLOW_UP on a non-empty history), \<open>chat\<close> raises that same
  exception. At the serving boundary the exception becomes the 500 answer and the session
  is the one the request came with; more generally every answer of \<open>/chat\<close> other than
  a success leaves the session as it was.
\<close>

theorem collaborator_failure_leaves_session:
  "(llm1_invoke env t (classifier_request env u qs) = Inl e
      \<longrightarrow> chat env t u h qs = (t @ [Llm1 (classifier_request env u qs)], Inl e))
   \<and> (understand_question env t u qs = (t1, Inr d)
        \<and> py_getitem d ''question_type'' = Inr (PStr ''NEW'')
        \<and> py_getitem d ''premium_amounts'' = Inr p
        \<and> get_plans env t1 p = (t2, Inl e)
      \<longrightarrow> chat env t u h qs = (t2, Inl e))
   \<and> (understand_question env t u qs = (t1, Inr d)
        \<and> py_getitem d ''question_type'' = Inr (PStr ''NEW'')
        \<and> py_getitem d ''premium_amounts'' = Inr p
        \<and> get_plans env t1 p = (t2, Inr found) \<and> found \<noteq> []
        \<and> llm2_invoke env t2 (generator_request env u found h) = Inl e
      \<longrightarrow> chat env t u h qs = (t2 @ [Llm2 (generator_request env u found h)], Inl e))
   \<and> (understand_question env t u qs = (t1, Inr d)
        \<and> py_getitem d ''question_type'' = Inr (PStr ''FOLLOW_UP'')
        \<and> py_getitem d ''premium_amounts'' = Inr p
        \<and> h \<noteq> []
        \<and> llm2_invoke env t1 (generator_request env u (cached_plans (last h)) h) = Inl e
      \<longrightarrow> chat env t u h qs
            = (t1 @ [Llm2 (generator_request env u (cached_plans (last h)) h)], Inl e))
   \<and> (map_of kvs ''message'' = Some (PStr msg) \<and> strip msg \<noteq> []
        \<and> chat env t (strip msg) (get_history s) (get_prev_questions s) = (t3, Inl e)
      \<longrightarrow> chat_endpoint env t s (Inr (PDict kvs)) = (t3, ServerError e, s))
   \<and> (chat_endpoint env t s body = (t4, r, s4) \<and> (\<forall>answer. r \<noteq> Success answer)
      \<longrightarrow> s4 = s)"
proof (intro conjI impI)
  assume "llm1_invoke env t (classifier_request env u qs) = Inl e"
  then show "chat env t u h qs = (t @ [Llm1 (classifier_request env u qs)], Inl e)"
    by (simp add: chat_def understand_question_def Let_def)
next
  assume "understand_question env t u qs = (t1, Inr d)
        \<and> py_getitem d ''question_type'' = Inr (PStr ''NEW'')
        \<and> py_getitem d ''premium_amounts'' = Inr p
        \<and> get_plans env t1 p = (t2, Inl e)"
  then show "chat env t u h qs = (t2, Inl e)"
    by (simp add: chat_new)
next
  assume "understand_question env t u qs = (t1, Inr d)
        \<and> py_getitem d ''question_type'' = Inr (PStr ''NEW'')
        \<and> py_getitem d ''premium_amounts'' = Inr p
        \<and> get_plans env t1 p = (t2, Inr found) \<and> found \<noteq> []
        \<and> llm2_invoke env t2 (generator_request env u found h) = Inl e"
  then show "chat env t u h qs = (t2 @ [Llm2 (generator_request env u found h)], Inl e)"
    by (simp add: chat_new generate_answer_def Let_def)
next
  assume "understand_question env t u qs = (t1, Inr d)
        \<and> py_getitem d ''question_type'' = Inr (PStr ''FOLLOW_UP'')
        \<and> py_getitem d ''premium_amounts'' = Inr p
        \<and> h \<noteq> []
        \<and> llm2_invoke env t1 (generator_request env u (cached_plans (last h)) h) = Inl e"
  then show "chat env t u h qs
            = (t1 @ [Llm2 (generator_request env u (cached_plans (last h)) h)], Inl e)"
    by (simp add: chat_follow_up generate_answer_def Let_def)
next
  assume "map_of kvs ''message'' = Some (PStr msg) \<and> strip msg \<noteq> []
        \<and> chat env t (strip msg) (get_history s) (get_prev_questions s) = (t3, Inl e)"
  then show "chat_endpoint env t s (Inr (PDict kvs)) = (t3, ServerError e, s)"
    by (simp add: chat_endpoint_message)
next
  assume "chat_endpoint env t s body = (t4, r, s4) \<and> (\<forall>answer. r \<noteq> Success answer)"
  then show "s4 = s"
    using chat_endpoint_failure_keeps_session by blast
qed

theorem collaborator_failure_leaves_session_witness:
  "snd (chat (sample_env [] (Inr sample_answer)) [] ''compare 18000, 22500'' [] [])
     = Inl (CollaboratorFailure ''classifier timed out'')
   \<and> snd (get_plans (sample_env [says_new_unreachable] (Inr sample_answer))
            [Llm1 (classifier_request (sample_env [says_new_unreachable] (Inr sample_answer))
                     ''compare 18000, 404'' [])]
            (PList [PInt 18000, PInt 404]))
     = Inl (CollaboratorFailure ''store unreachable'')
   \<and> snd (chat (sample_env [says_new_unreachable] (Inr sample_answer)) []
            ''compare 18000, 404'' [] [])
     = Inl (CollaboratorFailure ''store unreachable'')
   \<and> snd (chat (sample_env [says_new] (Inl (CollaboratorFailure ''generator unavailable''))) []
            ''compare 18000, 22500'' [] [])
     = Inl (CollaboratorFailure ''generator unavailable'')
   \<and> snd (chat (sample_env [says_follow_up] (Inl (CollaboratorFailure ''generator unavailable'')))
            [] ''which is cheaper?'' [first_turn] [''compare 18000, 22500''])
     = Inl (CollaboratorFailure ''generator unavailable'')
   \<and> snd (chat_endpoint (sample_env [] (Inr sample_answer)) []
            \<lparr>sess_history = Some [first_turn\<lparr>plans := None\<rparr>],
             sess_prev_questions = Some [''compare 18000, 22500'']\<rparr>
            (Inr (PDict [(''message'', PStr '' which is cheaper? '')])))
     = (ServerError (CollaboratorFailure ''classifier timed out''),
        \<lparr>sess_history = Some [first_turn\<lparr>plans := None\<rparr>],
         sess_prev_questions = Some [''compare 18000, 22500'']\<rparr>)"
proof -
  let ?A = "sample_env [] (Inr sample_answer)"
  let ?B = "sample_env [says_new_unreachable] (Inr sample_answer)"
  let ?C = "sample_env [says_new] (Inl (CollaboratorFailure ''generator unavailable''))"
  let ?D = "sample_env [says_follow_up] (Inl (CollaboratorFailure ''generator unavailable''))"
  let ?Q = "[''compare 18000, 22500'']"
  let ?s = "\<lparr>sess_history = Some [first_turn\<lparr>plans := None\<rparr>], sess_prev_questions = Some ?Q\<rparr>"
  let ?kvs = "[(''message'', PStr '' which is cheaper? '')]"
  \<comment> \<open>the classifier call raises\<close>
  have a: "llm1_invoke ?A [] (classifier_request ?A ''compare 18000, 22500'' [])
             = Inl (CollaboratorFailure ''classifier timed out'')"
    by (simp add: sample_env_def)
  note k1 = collaborator_failure_leaves_session [THEN conjunct1, THEN mp, OF a]
  \<comment> \<open>the retriever raises on the second key\<close>
  let ?tB = "[Llm1 (classifier_request ?B ''compare 18000, 404'' [])]"
  let ?dB = "contract_value ''NEW'' (PList [PInt 18000, PInt 404]) ''2 premiums to compare''"
  have gB: "snd (get_plans ?B ?tB (PList [PInt 18000, PInt 404]))
              = Inl (CollaboratorFailure ''store unreachable'')"
    by (simp add: get_plans_def py_iter_def py_str_def Let_def sample_simps)
  have b: "understand_question ?B [] ''compare 18000, 404'' [] = (?tB, Inr ?dB)
         \<and> py_getitem ?dB ''question_type'' = Inr (PStr ''NEW'')
         \<and> py_getitem ?dB ''premium_amounts'' = Inr (PList [PInt 18000, PInt 404])
         \<and> get_plans ?B ?tB (PList [PInt 18000, PInt 404])
             = (fst (get_plans ?B ?tB (PList [PInt 18000, PInt 404])),
                Inl (CollaboratorFailure ''store unreachable''))"
    using with_fst [OF gB]
    by (simp add: understand_question_def Let_def py_getitem_def sample_simps)
  note k2 = collaborator_failure_leaves_session
      [THEN conjunct2, THEN conjunct1, THEN mp, OF b]
  \<comment> \<open>the generator raises after a NEW with records\<close>
  let ?tC = "[Llm1 (classifier_request ?C ''compare 18000, 22500'' [])]"
  let ?dC = "contract_value ''NEW'' (PList [PInt 18000, PInt 22500]) ''2 premiums to compare''"
  let ?t2C = "?tC @ [search_call ?C (PInt 18000), search_call ?C (PInt 22500)]"
  have c: "understand_question ?C [] ''compare 18000, 22500'' [] = (?tC, Inr ?dC)
         \<and> py_getitem ?dC ''question_type'' = Inr (PStr ''NEW'')
         \<and> py_getitem ?dC ''premium_amounts'' = Inr (PList [PInt 18000, PInt 22500])
         \<and> get_plans ?C ?tC (PList [PInt 18000, PInt 22500]) = (?t2C, Inr [plan_18000, plan_22500])
         \<and> [plan_18000, plan_22500] \<noteq> []
         \<and> llm2_invoke ?C ?t2C
              (generator_request ?C ''compare 18000, 22500'' [plan_18000, plan_22500] [])
             = Inl (CollaboratorFailure ''generator unavailable'')"
    by (simp add: understand_question_def get_plans_def py_iter_def py_str_def search_call_def
        Let_def py_getitem_def sample_simps)
  note k3 = collaborator_failure_leaves_session
      [THEN conjunct2, THEN conjunct2, THEN conjunct1, THEN mp, OF c]
  \<comment> \<open>the generator raises after a FOLLOW_UP\<close>
  let ?tD = "[Llm1 (classifier_request ?D ''which is cheaper?'' ?Q)]"
  let ?dD = "contract_value ''FOLLOW_UP'' PNone ''Asking about previous results''"
  have d: "understand_question ?D [] ''which is cheaper?'' ?Q = (?tD, Inr ?dD)
         \<and> py_getitem ?dD ''question_type'' = Inr (PStr ''FOLLOW_UP'')
         \<and> py_getitem ?dD ''premium_amounts'' = Inr PNone
         \<and> [first_turn] \<noteq> []
         \<and> llm2_invoke ?D ?tD
              (generator_request ?D ''which is cheaper?'' (cached_plans (last [first_turn]))
                 [first_turn])
             = Inl (CollaboratorFailure ''generator unavailable'')"
    by (simp add: understand_question_def Let_def py_getitem_def sample_simps)
  note k4 = collaborator_failure_leaves_session
      [THEN conjunct2, THEN conjunct2, THEN conjunct2, THEN conjunct1, THEN mp, OF d]
  \<comment> \<open>at the serving boundary\<close>
  have a': "llm1_invoke ?A [] (classifier_request ?A ''which is cheaper?'' ?Q)
             = Inl (CollaboratorFailure ''classifier timed out'')"
    by (simp add: sample_env_def)
  note k1' = collaborator_failure_leaves_session
      [THEN conjunct1, THEN mp, OF a', of "[first_turn\<lparr>plans := None\<rparr>]"]
  have e: "map_of ?kvs ''message'' = Some (PStr '' which is cheaper? '')
         \<and> strip '' which is cheaper? '' \<noteq> []
         \<and> chat ?A [] (strip '' which is cheaper? '') (get_history ?s) (get_prev_questions ?s)
            = ([Llm1 (classifier_request ?A ''which is cheaper?'' ?Q)],
               Inl (CollaboratorFailure ''classifier timed out''))"
    using k1' by (simp add: sample_lines get_history_def get_prev_questions_def)
  note k5 = collaborator_failure_leaves_session
      [THEN conjunct2, THEN conjunct2, THEN conjunct2, THEN conjunct2, THEN conjunct1,
        THEN mp, OF e]
  have f: "chat_endpoint ?A [] ?s (Inr (PDict ?kvs))
             = ([Llm1 (classifier_request ?A ''which is cheaper?'' ?Q)],
                ServerError (CollaboratorFailure ''classifier timed out''),
                snd (snd (chat_endpoint ?A [] ?s (Inr (PDict ?kvs)))))
         \<and> (\<forall>answer. ServerError (CollaboratorFailure ''classifier timed out'') \<noteq> Success answer)"
    using k5 by simp
  note k6 = collaborator_failure_leaves_session
      [THEN conjunct2, THEN conjunct2, THEN conjunct2, THEN conjunct2, THEN conjunct2,
        THEN mp, OF f]
  show ?thesis
    using k1 [of "[]"] gB k2 [of "[]"] k3 k4 k5 k6
    by simp
qed

subsection \<open>The web session keeps no records\<close>

text \<open>
  Claim C9. After a successful \<open>/chat\<close> request every turn stored in the session has
  no \<open>plans\<close> entry, and a session whose stored turns have none keeps it so through
  every later request, whatever its outcome. So on such a stored, non-empty history, a
  request whose utterance is classified FOLLOW_UP reads the empty list of records, and the
  calls it makes are the classifier and then the generator, invoked for zero records.
\<close>

theorem web_session_drops_plans:
  "(chat_endpoint env t s body = (t1, Success a, s1)
      \<longrightarrow> (\<exists>stored. sess_history s1 = Some stored \<and> (\<forall>it \<in> set stored. plans it = None)))
   \<and> ((\<forall>it \<in> set (get_history s). plans it = None)
        \<and> chat_endpoint env t s body = (t2, r, s2)
      \<longrightarrow> (\<forall>it \<in> set (get_history s2). plans it = None))
   \<and> (sess_history s = Some stored \<and> stored \<noteq> [] \<and> (\<forall>it \<in> set stored. plans it = None)
        \<and> map_of kvs ''message'' = Some (PStr msg) \<and> strip msg \<noteq> []
        \<and> intent_of env t (strip msg) (get_prev_questions s) = Some (PStr ''FOLLOW_UP'')
      \<longrightarrow> cached_plans (last stored) = []
        \<and> fst (chat_endpoint env t s (Inr (PDict kvs)))
            = t @ [Llm1 (classifier_request env (strip msg) (get_prev_questions s)),
                   Llm2 (generator_request env (strip msg) [] stored)])"
proof (intro conjI impI)
  assume "chat_endpoint env t s body = (t1, Success a, s1)"
  then show "\<exists>stored. sess_history s1 = Some stored \<and> (\<forall>it \<in> set stored. plans it = None)"
    by (auto simp add: chat_endpoint_def Let_def
        split: sum.splits if_splits bool.splits pyval.splits prod.splits option.splits)
next
  assume a: "(\<forall>it \<in> set (get_history s). plans it = None)
        \<and> chat_endpoint env t s body = (t2, r, s2)"
  show "\<forall>it \<in> set (get_history s2). plans it = None"
  proof (cases "\<exists>answer. r = Success answer")
    case True
    with a show ?thesis
      by (auto simp add: chat_endpoint_def Let_def get_history_def
          split: sum.splits if_splits bool.splits pyval.splits prod.splits option.splits)
  next
    case False
    with a chat_endpoint_failure_keeps_session [of env t s body t2 r s2] show ?thesis
      by simp
  qed
next
  assume a: "sess_history s = Some stored \<and> stored \<noteq> [] \<and> (\<forall>it \<in> set stored. plans it = None)
        \<and> map_of kvs ''message'' = Some (PStr msg) \<and> strip msg \<noteq> []
        \<and> intent_of env t (strip msg) (get_prev_questions s) = Some (PStr ''FOLLOW_UP'')"
  then have "plans (last stored) = None" by simp
  then show c: "cached_plans (last stored) = []" by (simp add: cached_plans_def)
  from a have g: "get_history s = stored" by (simp add: get_history_def)
  from a g chat_endpoint_follow_up [of s kvs msg env t] c
  show "fst (chat_endpoint env t s (Inr (PDict kvs)))
            = t @ [Llm1 (classifier_request env (strip msg) (get_prev_questions s)),
                   Llm2 (generator_request env (strip msg) [] stored)]"
    by simp
qed

theorem web_session_drops_plans_witness:
  "snd (chat_endpoint (sample_env sample_script (Inr sample_answer)) []
          \<lparr>sess_history = None, sess_prev_questions = None\<rparr>
          (Inr (PDict [(''message'', PStr '' compare 18000, 22500 '')])))
     = (Success sample_answer,
        \<lparr>sess_history = Some [first_turn\<lparr>plans := None\<rparr>],
         sess_prev_questions = Some [''compare 18000, 22500'']\<rparr>)
   \<and> plans first_turn = Some [plan_18000, plan_22500]
   \<and> map plans [first_turn\<lparr>plans := None\<rparr>] = [None]
   \<and> intent_of (sample_env sample_script (Inr sample_answer))
        (fst (chat_endpoint (sample_env sample_script (Inr sample_answer)) []
                \<lparr>sess_history = None, sess_prev_questions = None\<rparr>
                (Inr (PDict [(''message'', PStr '' compare 18000, 22500 '')]))))
        ''which is cheaper?'' [''compare 18000, 22500'']
      = Some (PStr ''FOLLOW_UP'')
   \<and> fst (chat_endpoint (sample_env sample_script (Inr sample_answer))
        (fst (chat_endpoint (sample_env sample_script (Inr sample_answer)) []
                \<lparr>sess_history = None, sess_prev_questions = None\<rparr>
                (Inr (PDict [(''message'', PStr '' compare 18000, 22500 '')]))))
        \<lparr>sess_history = Some [first_turn\<lparr>plans := None\<rparr>],
         sess_prev_questions = Some [''compare 18000, 22500'']\<rparr>
        (Inr (PDict [(''message'', PStr '' which is cheaper? '')])))
      = fst (chat_endpoint (sample_env sample_script (Inr sample_answer)) []
                \<lparr>sess_history = None, sess_prev_questions = None\<rparr>
                (Inr (PDict [(''message'', PStr '' compare 18000, 22500 '')])))
        @ [Llm1 (classifier_request (sample_env sample_script (Inr sample_answer))
                   ''which is cheaper?'' [''compare 18000, 22500'']),
           Llm2 (generator_request (sample_env sample_script (Inr sample_answer))
                   ''which is cheaper?'' [] [first_turn\<lparr>plans := None\<rparr>])]"
proof -
  let ?E = "sample_env sample_script (Inr sample_answer)"
  let ?s0 = "\<lparr>sess_history = None, sess_prev_questions = None\<rparr>"
  let ?b1 = "Inr (PDict [(''message'', PStr '' compare 18000, 22500 '')]) :: error + pyval"
  let ?Q = "[''compare 18000, 22500'']"
  let ?st = "[first_turn\<lparr>plans := None\<rparr>]"
  let ?s1 = "\<lparr>sess_history = Some ?st, sess_prev_questions = Some ?Q\<rparr>"
  let ?T = "fst (chat_endpoint ?E [] ?s0 ?b1)"
  note r = with_fst2 [OF sample_request]
  note k1 = web_session_drops_plans [THEN conjunct1, THEN mp, OF r]
  have i: "intent_of ?E ?T ''which is cheaper?'' ?Q = Some (PStr ''FOLLOW_UP'')"
    unfolding sample_request_log
    by (simp add: intent_of_def understand_question_def search_call_def Let_def py_getitem_def
        sample_simps sample_defs)
  have b: "sess_history ?s1 = Some ?st \<and> ?st \<noteq> [] \<and> (\<forall>it \<in> set ?st. plans it = None)
        \<and> map_of [(''message'', PStr '' which is cheaper? '')] ''message''
            = Some (PStr '' which is cheaper? '')
        \<and> strip '' which is cheaper? '' \<noteq> []
        \<and> intent_of ?E ?T (strip '' which is cheaper? '') (get_prev_questions ?s1)
            = Some (PStr ''FOLLOW_UP'')"
    using i by (simp add: sample_lines get_prev_questions_def)
  note k2 = web_session_drops_plans [THEN conjunct2, THEN conjunct2, THEN mp, OF b]
  have v: "(\<forall>it \<in> set (get_history ?s0). plans it = None)
        \<and> chat_endpoint ?E [] ?s0 ?b1 = (?T, Success sample_answer, ?s1)"
    using r by (simp add: get_history_def)
  note k3 = web_session_drops_plans [THEN conjunct2, THEN conjunct1, THEN mp, OF v]
  have p: "plans first_turn = Some [plan_18000, plan_22500]"
    by (simp add: first_turn_def)
  show ?thesis
    using k1 k2 k3 sample_request i p
    by (simp add: sample_lines get_prev_questions_def get_history_def)
qed

end
